theory Spec2Isabelle
  imports Complex_Main
begin

section \<open>Strings as the source uses them\<close>

text \<open>
  Paths and names are JavaScript strings. The operations the source applies to them
  (\<^verbatim>\<open>split('/')\<close>, \<^verbatim>\<open>lastIndexOf('/')\<close>, \<^verbatim>\<open>substring\<close>, template
  literals) only compare code units with the slash and count positions, so a string is
  modelled as a list of characters, one per code unit.
\<close>

definition slash :: char where
  "slash = CHR ''/''"

text \<open>\<^verbatim>\<open>s.split(c)\<close>: the pieces between the occurrences of \<open>c\<close>; never an empty array.\<close>

fun split_on :: "char \<Rightarrow> string \<Rightarrow> string list" where
  "split_on c [] = [[]]"
| "split_on c (x # xs) =
     (if x = c then [] # split_on c xs
      else (case split_on c xs of
              [] \<Rightarrow> [[x]]
            | p # ps \<Rightarrow> (x # p) # ps))"

text \<open>\<^verbatim>\<open>s.lastIndexOf(c)\<close>: the position of the last \<open>c\<close>, or \<open>-1\<close>.\<close>

fun lastIndexOf_from :: "string \<Rightarrow> char \<Rightarrow> int \<Rightarrow> int \<Rightarrow> int" where
  "lastIndexOf_from [] c i found = found"
| "lastIndexOf_from (x # xs) c i found =
     lastIndexOf_from xs c (i + 1) (if x = c then i else found)"

definition lastIndexOf :: "string \<Rightarrow> char \<Rightarrow> int" where
  "lastIndexOf s c = lastIndexOf_from s c 0 (- 1)"

text \<open>
  \<^verbatim>\<open>s.substring(start, end)\<close>: both arguments are clamped to \<open>0 .. length\<close> and
  swapped when \<open>start > end\<close>; \<^verbatim>\<open>s.substring(start)\<close> runs to the end.
\<close>

definition substring :: "string \<Rightarrow> int \<Rightarrow> int \<Rightarrow> string" where
  "substring s start finish =
     (let n = int (length s);
          a = max 0 (min n start);
          b = max 0 (min n finish);
          lo = min a b;
          hi = max a b
      in take (nat (hi - lo)) (drop (nat lo) s))"

definition substring_from :: "string \<Rightarrow> int \<Rightarrow> string" where
  "substring_from s start = substring s start (int (length s))"

section \<open>The host: vault, workspace, plugins\<close>

text \<open>
  The vault maps a path to the abstract file stored there (a \<^verbatim>\<open>TFile\<close> or a
  \<^verbatim>\<open>TFolder\<close>). Every call the source makes on the host is recorded, in order, in the
  trace of the world; the vault is the part of the host's state that the calls read and
  change. Host calls are taken to succeed: \<^verbatim>\<open>createFolder\<close> and \<^verbatim>\<open>create\<close> add the
  entry they are asked for.
\<close>

datatype node = TFile | TFolder

text \<open>
  A calendar date as the handlers use it: the year, the zero-based month that
  \<^verbatim>\<open>month()\<close> returns, and the day of the month. A Dayjs object is such a date or is
  invalid (\<open>None\<close>).
\<close>

record date =
  year :: int
  month :: int
  day :: int

type_synonym dayjs = "date option"

type_synonym vault_map = "string \<rightharpoonup> node"

datatype event =
    FileLookup string                         \<comment> \<open>\<^verbatim>\<open>vault.getAbstractFileByPath(path)\<close>\<close>
  | OpenLink string                           \<comment> \<open>\<^verbatim>\<open>workspace.openLinkText(path, '', false)\<close>\<close>
  | PluginLookup string                       \<comment> \<open>\<^verbatim>\<open>app.plugins.plugins[id]\<close>\<close>
  | FolderCreate string                       \<comment> \<open>\<^verbatim>\<open>vault.createFolder(path)\<close>\<close>
  | FileCreate string string                  \<comment> \<open>\<^verbatim>\<open>vault.create(path, content)\<close>\<close>
  | TemplateCreate string string string bool  \<comment> \<open>\<^verbatim>\<open>templater.create_new_note_from_template\<close>\<close>
  | Delay nat                                 \<comment> \<open>\<^verbatim>\<open>setTimeout(resolve, ms)\<close>, awaited\<close>
  | StopPropagation                           \<comment> \<open>\<^verbatim>\<open>ev.stopPropagation()\<close>\<close>
  | PreventDefault                            \<comment> \<open>\<^verbatim>\<open>ev.preventDefault()\<close>\<close>
  | ModalOpen dayjs                           \<comment> \<open>\<^verbatim>\<open>new CreateNoteModal(plugin, date).open()\<close>\<close>
  | MenuShow                                  \<comment> \<open>\<^verbatim>\<open>menu.showAtPosition\<close>\<close>

record world =
  vault :: vault_map
  trace :: "event list"

text \<open>
  The Templater plugin is third-party code. What its
  \<^verbatim>\<open>create_new_note_from_template(template, folder, filename, open)\<close> does to the vault
  is a parameter of the model: the \<open>templater\<close> object of the plugin, when there is one,
  is that function.
\<close>

type_synonym templater_fn = "string \<Rightarrow> string \<Rightarrow> string \<Rightarrow> bool \<Rightarrow> vault_map \<Rightarrow> vault_map"

record templater_plugin =
  templater :: "templater_fn option"

record plugin_registry =
  registry_plugins :: "(string \<rightharpoonup> templater_plugin) option"

record daily_notes_options =
  opt_format :: "string option"
  opt_folder :: "string option"
  opt_template :: "string option"

text \<open>
  The core Daily Notes plugin: \<open>instance_options\<close> is \<^verbatim>\<open>instance?.options\<close>, absent when
  either is; an option of it is absent or a string.
\<close>

record daily_notes_plugin =
  enabled :: bool
  instance_options :: "daily_notes_options option"

record internal_registry =
  internal_registry_plugins :: "(string \<rightharpoonup> daily_notes_plugin) option"

record app =
  app_plugins :: "plugin_registry option"
  internalPlugins :: "internal_registry option"

record NoteCreationConfig =
  fileName :: string
  folder :: string
  templatePath :: string

definition log_event :: "event \<Rightarrow> world \<Rightarrow> world" where
  "log_event e w = w\<lparr>trace := trace w @ [e]\<rparr>"

definition getAbstractFileByPath :: "string \<Rightarrow> world \<Rightarrow> node option \<times> world" where
  "getAbstractFileByPath path w = (vault w path, log_event (FileLookup path) w)"

definition openLinkText :: "string \<Rightarrow> world \<Rightarrow> world" where
  "openLinkText path w = log_event (OpenLink path) w"

definition createFolder :: "string \<Rightarrow> world \<Rightarrow> world" where
  "createFolder path w = log_event (FolderCreate path) (w\<lparr>vault := (vault w)(path \<mapsto> TFolder)\<rparr>)"

definition vault_create :: "string \<Rightarrow> string \<Rightarrow> world \<Rightarrow> world" where
  "vault_create path content w =
     log_event (FileCreate path content) (w\<lparr>vault := (vault w)(path \<mapsto> TFile)\<rparr>)"

definition create_new_note_from_template ::
  "templater_fn \<Rightarrow> string \<Rightarrow> string \<Rightarrow> string \<Rightarrow> bool \<Rightarrow> world \<Rightarrow> world" where
  "create_new_note_from_template t templateFile dir name opn w =
     log_event (TemplateCreate templateFile dir name opn)
       (w\<lparr>vault := t templateFile dir name opn (vault w)\<rparr>)"

definition delay :: "nat \<Rightarrow> world \<Rightarrow> world" where
  "delay ms w = log_event (Delay ms) w"

section \<open>util/noteCreation.ts\<close>

definition openExistingNote :: "string \<Rightarrow> world \<Rightarrow> bool \<times> world" where
  "openExistingNote filePath w =
     (let (existingFile, w1) = getAbstractFileByPath filePath w
      in if existingFile \<noteq> None then (True, openLinkText filePath w1)
         else (False, w1))"

definition getTemplaterPlugin :: "app \<Rightarrow> world \<Rightarrow> templater_plugin option \<times> world" where
  "getTemplaterPlugin a w =
     ((case app_plugins a of
         None \<Rightarrow> None
       | Some r \<Rightarrow> (case registry_plugins r of
                     None \<Rightarrow> None
                   | Some m \<Rightarrow> m ''templater-obsidian'')),
      log_event (PluginLookup ''templater-obsidian'') w)"

text \<open>The template file found is returned as its path.\<close>

definition getTemplateFile :: "string \<Rightarrow> world \<Rightarrow> string option \<times> world" where
  "getTemplateFile tp w =
     (if tp = [] then (None, w)
      else (let (file, w1) = getAbstractFileByPath (tp @ ''.md'') w
            in ((case file of Some TFile \<Rightarrow> Some (tp @ ''.md'') | _ \<Rightarrow> None), w1)))"

fun ensureFolders_loop :: "string list \<Rightarrow> string \<Rightarrow> world \<Rightarrow> world" where
  "ensureFolders_loop [] currentPath w = w"
| "ensureFolders_loop (part # parts) currentPath w =
     (let currentPath' = (if currentPath \<noteq> [] then currentPath @ [slash] @ part else part);
          (folderExists, w1) = getAbstractFileByPath currentPath' w;
          w2 = (if folderExists = None then createFolder currentPath' w1 else w1)
      in ensureFolders_loop parts currentPath' w2)"

definition ensureFoldersExist :: "string \<Rightarrow> world \<Rightarrow> world" where
  "ensureFoldersExist fullDir w =
     (if fullDir = [] then w
      else ensureFolders_loop (split_on slash fullDir) [] w)"

definition has_templater :: "templater_plugin option \<Rightarrow> templater_fn option" where
  "has_templater p = (case p of None \<Rightarrow> None | Some pl \<Rightarrow> templater pl)"

definition createNoteWithTemplate ::
  "string \<Rightarrow> string \<Rightarrow> string \<Rightarrow> templater_plugin option \<Rightarrow> string option \<Rightarrow> world \<Rightarrow> world" where
  "createNoteWithTemplate filePath fullDir fname templaterPlugin templateFile w =
     (case (templateFile, has_templater templaterPlugin) of
        (Some tf, Some t) \<Rightarrow>
          (let justFileName = substring_from fname (lastIndexOf fname slash + 1);
               w1 = create_new_note_from_template t tf fullDir justFileName True w
           in delay 300 w1)
      | _ \<Rightarrow>
          (let w1 = vault_create filePath [] w;
               w2 = delay 300 w1
           in openLinkText filePath w2))"

text \<open>
  \<open>has_templater\<close> is the test \<^verbatim>\<open>templaterPlugin?.templater\<close>, and \<open>resolve_filePath\<close> the
  first statement of \<^verbatim>\<open>openOrCreateNote\<close> that computes \<^verbatim>\<open>filePath\<close>; both are named
  here because the theorems speak of them.
\<close>

definition resolve_filePath :: "NoteCreationConfig \<Rightarrow> string" where
  "resolve_filePath config =
     (if folder config \<noteq> [] then folder config @ [slash] @ fileName config @ ''.md''
      else fileName config @ ''.md'')"

definition openOrCreateNote :: "app \<Rightarrow> NoteCreationConfig \<Rightarrow> world \<Rightarrow> world" where
  "openOrCreateNote a config w =
     (let filePath = resolve_filePath config;
          (opened, w1) = openExistingNote filePath w
      in if opened then w1
         else (let (templaterPlugin, w2) = getTemplaterPlugin a w1;
                   (templateFile, w3) = getTemplateFile (templatePath config) w2;
                   fullDir = substring filePath 0 (lastIndexOf filePath slash);
                   w4 = ensureFoldersExist fullDir w3
               in createNoteWithTemplate filePath fullDir (fileName config)
                    templaterPlugin templateFile w4))"

section \<open>noteHandlers.ts\<close>

text \<open>
  The dayjs library is third-party code: how a text is parsed under a format, and how a
  valid date is printed under a format, are parameters of the model. An invalid Dayjs
  object prints as \<^verbatim>\<open>Invalid Date\<close>.
\<close>

record dayjs_lib =
  dj_parse :: "string \<Rightarrow> string \<Rightarrow> dayjs"
  dj_format :: "date \<Rightarrow> string \<Rightarrow> string"

definition format_dayjs :: "dayjs_lib \<Rightarrow> dayjs \<Rightarrow> string \<Rightarrow> string" where
  "format_dayjs lib d f = (case d of None \<Rightarrow> ''Invalid Date'' | Some x \<Rightarrow> dj_format lib x f)"

definition leap_year :: "int \<Rightarrow> bool" where
  "leap_year y = ((y mod 4 = 0 \<and> y mod 100 \<noteq> 0) \<or> y mod 400 = 0)"

definition daysInMonth :: "int \<Rightarrow> int \<Rightarrow> int" where
  "daysInMonth y m =
     (if m = 1 then (if leap_year y then 29 else 28)
      else if m = 3 \<or> m = 5 \<or> m = 8 \<or> m = 10 then 30 else 31)"

text \<open>
  \<^verbatim>\<open>d.month(n)\<close>: the month is set, a month outside \<open>0 .. 11\<close> rolls into the
  neighbouring years, and the day is clamped to the length of the new month.
  \<^verbatim>\<open>d.startOf('month')\<close>: the first day of the month.
\<close>

definition set_month :: "date \<Rightarrow> int \<Rightarrow> date" where
  "set_month d n =
     (let y = year d + n div 12; m = n mod 12
      in \<lparr>year = y, month = m, day = min (day d) (daysInMonth y m)\<rparr>)"

definition startOf_month :: "date \<Rightarrow> date" where
  "startOf_month d = d\<lparr>day := 1\<rparr>"

fun parseDate :: "dayjs_lib \<Rightarrow> string \<Rightarrow> string list \<Rightarrow> dayjs" where
  "parseDate lib s [] = None"
| "parseDate lib s (format # formats) =
     (case dj_parse lib s format of
        Some d \<Rightarrow> Some d
      | None \<Rightarrow> parseDate lib s formats)"

record settings =
  weeklyNoteFormat :: string
  weeklyNoteFolder :: string
  weeklyNoteTemplate :: string
  monthlyNoteFormat :: string
  monthlyNoteFolder :: string
  monthlyNoteTemplate :: string
  quarterlyNoteFormat :: string
  quarterlyNoteFolder :: string
  quarterlyNoteTemplate :: string

text \<open>
  What the handlers read from the calendar markup. A tile is given by the
  \<^verbatim>\<open>aria-label\<close> of its first \<^verbatim>\<open>abbr[aria-label]\<close> element, \<open>None\<close> when it has no
  such element; the week-number tiles are given by their identities, to be compared with the
  clicked element. A navigation label is given by the text of its
  \<^verbatim>\<open>.oz-calendar-month-year\<close> span, \<open>None\<close> when the span or its text is missing.
\<close>

type_synonym tile = "string option"

record calendar_dom =
  weekNumberTiles :: "nat list"
  dayTiles :: "tile list"

record nav_target =
  labelButton :: "string option option"
  in_quarter :: bool
  in_month_year :: bool

text \<open>\<^verbatim>\<open>x || d\<close> on an optional string: \<open>d\<close> when \<open>x\<close> is missing or empty.\<close>

definition or_default :: "string option \<Rightarrow> string \<Rightarrow> string" where
  "or_default x d = (case x of None \<Rightarrow> d | Some s \<Rightarrow> if s = [] then d else s)"

record menu_item =
  title :: string
  icon :: string
  onClick :: "world \<Rightarrow> world"

definition get_daily_notes :: "app \<Rightarrow> daily_notes_plugin option" where
  "get_daily_notes a =
     (case internalPlugins a of
        None \<Rightarrow> None
      | Some r \<Rightarrow> (case internal_registry_plugins r of
                    None \<Rightarrow> None
                  | Some m \<Rightarrow> m ''daily-notes''))"

text \<open>The action of the menu item \<^verbatim>\<open>Create daily note for this date\<close>.\<close>

definition create_daily_note :: "dayjs_lib \<Rightarrow> app \<Rightarrow> daily_notes_plugin \<Rightarrow> dayjs \<Rightarrow> world \<Rightarrow> world" where
  "create_daily_note lib a dailyNotesPlugin dayjsDate w =
     (case instance_options dailyNotesPlugin of
        None \<Rightarrow> w
      | Some options \<Rightarrow>
          openOrCreateNote a
            \<lparr>fileName = format_dayjs lib dayjsDate (or_default (opt_format options) ''YYYY-MM-DD''),
             folder = or_default (opt_folder options) [],
             templatePath = or_default (opt_template options) []\<rparr> w)"

text \<open>
  The result is the menu shown, \<open>None\<close> when the handler returns before building one.
\<close>

definition handleMonthDayContextMenu ::
  "dayjs_lib \<Rightarrow> app \<Rightarrow> tile \<Rightarrow> world \<Rightarrow> menu_item list option \<times> world" where
  "handleMonthDayContextMenu lib a delegateTarget w =
     (case delegateTarget of
        None \<Rightarrow> (None, w)
      | Some destDate \<Rightarrow>
          if destDate = [] then (None, w)
          else
            (let dayjsDate = dj_parse lib destDate ''MMMM D, YYYY'';
                 item1 = \<lparr>title = ''Create a note for this date'', icon = ''create-new'',
                          onClick = log_event (ModalOpen dayjsDate)\<rparr>;
                 dailyNotesPlugin = get_daily_notes a;
                 (templaterPlugin, w1) = getTemplaterPlugin a w;
                 items =
                   (case dailyNotesPlugin of
                      None \<Rightarrow> [item1]
                    | Some dn \<Rightarrow>
                        if enabled dn \<and> has_templater templaterPlugin \<noteq> None
                        then [item1,
                              \<lparr>title = ''Create daily note for this date'', icon = ''calendar-plus'',
                               onClick = create_daily_note lib a dn dayjsDate\<rparr>]
                        else [item1])
             in (Some items, log_event MenuShow w1)))"

text \<open>The index of the clicked week-number tile: the last tile equal to the target, or \<open>-1\<close>.\<close>

fun weekIndex_from :: "nat list \<Rightarrow> nat \<Rightarrow> int \<Rightarrow> int \<Rightarrow> int" where
  "weekIndex_from [] target i found = found"
| "weekIndex_from (t # ts) target i found =
     weekIndex_from ts target (i + 1) (if t = target then i else found)"

definition handleWeekNumberClick ::
  "dayjs_lib \<Rightarrow> settings \<Rightarrow> app \<Rightarrow> calendar_dom \<Rightarrow> nat \<Rightarrow> world \<Rightarrow> world" where
  "handleWeekNumberClick lib st a cal delegateTarget w =
     (let weekIndex = weekIndex_from (weekNumberTiles cal) delegateTarget 0 (- 1)
      in if weekIndex = - 1 then w
         else if weekIndex * 7 < 0 \<or> int (length (dayTiles cal)) \<le> weekIndex * 7 then w
         else
           (case dayTiles cal ! nat (weekIndex * 7) of
              None \<Rightarrow> w
            | Some label \<Rightarrow>
                (let dateText = (if label \<noteq> [] then label else []);
                     weekDate = dj_parse lib dateText ''MMMM D, YYYY''
                 in case weekDate of
                      None \<Rightarrow> w
                    | Some d \<Rightarrow>
                        openOrCreateNote a
                          \<lparr>fileName = dj_format lib d (weeklyNoteFormat st),
                           folder = weeklyNoteFolder st,
                           templatePath = weeklyNoteTemplate st\<rparr> w)))"

definition handleMonthLabelClick ::
  "dayjs_lib \<Rightarrow> settings \<Rightarrow> app \<Rightarrow> string option \<Rightarrow> world \<Rightarrow> world" where
  "handleMonthLabelClick lib st a textContent w =
     (let w1 = log_event StopPropagation w;
          w2 = log_event PreventDefault w1
      in case textContent of
           None \<Rightarrow> w2
         | Some labelText \<Rightarrow>
             if labelText = [] then w2
             else
               (case parseDate lib labelText [''D MMM YYYY'', ''DD MMM YYYY'', ''MMM YYYY''] of
                  None \<Rightarrow> w2
                | Some monthDate \<Rightarrow>
                    openOrCreateNote a
                      \<lparr>fileName = dj_format lib (startOf_month monthDate) (monthlyNoteFormat st),
                       folder = monthlyNoteFolder st,
                       templatePath = monthlyNoteTemplate st\<rparr> w2))"

definition handleMonthClick ::
  "dayjs_lib \<Rightarrow> settings \<Rightarrow> app \<Rightarrow> string option \<Rightarrow> world \<Rightarrow> world" where
  "handleMonthClick lib st a monthYearText w =
     (case monthYearText of
        None \<Rightarrow> w
      | Some labelText \<Rightarrow>
          if labelText = [] then w
          else
            (case parseDate lib labelText [''MMM YYYY'', ''MMMM YYYY''] of
               None \<Rightarrow> w
             | Some monthDate \<Rightarrow>
                 openOrCreateNote a
                   \<lparr>fileName = dj_format lib (startOf_month monthDate) (monthlyNoteFormat st),
                    folder = monthlyNoteFolder st,
                    templatePath = monthlyNoteTemplate st\<rparr> w))"

text \<open>
  \<^verbatim>\<open>Math.ceil((month + 1) / 3)\<close> and \<^verbatim>\<open>(quarter - 1) * 3\<close>. The division is the
  division of numbers, not of integers; the ceiling is taken of the exact quotient.
\<close>

definition quarter_of :: "int \<Rightarrow> int" where
  "quarter_of m = \<lceil>(of_int (m + 1) :: real) / 3\<rceil>"

definition quarterStartMonth :: "int \<Rightarrow> int" where
  "quarterStartMonth m = (quarter_of m - 1) * 3"

definition handleQuarterClick ::
  "dayjs_lib \<Rightarrow> settings \<Rightarrow> app \<Rightarrow> string option \<Rightarrow> world \<Rightarrow> world" where
  "handleQuarterClick lib st a monthYearText w =
     (case monthYearText of
        None \<Rightarrow> w
      | Some labelText \<Rightarrow>
          if labelText = [] then w
          else
            (case parseDate lib labelText [''MMM YYYY'', ''MMMM YYYY''] of
               None \<Rightarrow> w
             | Some monthDate \<Rightarrow>
                 (let quarterDate =
                        startOf_month (set_month monthDate (quarterStartMonth (month monthDate)))
                  in openOrCreateNote a
                       \<lparr>fileName = dj_format lib quarterDate (quarterlyNoteFormat st),
                        folder = quarterlyNoteFolder st,
                        templatePath = quarterlyNoteTemplate st\<rparr> w)))"

definition stop_and_prevent :: "world \<Rightarrow> world" where
  "stop_and_prevent w = log_event PreventDefault (log_event StopPropagation w)"

definition handleMonthNavLabelClickCapture ::
  "dayjs_lib \<Rightarrow> settings \<Rightarrow> app \<Rightarrow> nav_target \<Rightarrow> world \<Rightarrow> world" where
  "handleMonthNavLabelClickCapture lib st a target w =
     (case labelButton target of
        None \<Rightarrow> w
      | Some button \<Rightarrow>
          if in_quarter target then handleQuarterClick lib st a button (stop_and_prevent w)
          else if in_month_year target then handleMonthClick lib st a button (stop_and_prevent w)
          else handleMonthClick lib st a button (stop_and_prevent w))"

section \<open>Reading the trace\<close>

text \<open>The calls a run adds to the trace.\<close>

definition new_events :: "world \<Rightarrow> world \<Rightarrow> event list" where
  "new_events w w' = drop (length (trace w)) (trace w')"

definition is_folder_event :: "event \<Rightarrow> bool" where
  "is_folder_event e = (case e of FileLookup _ \<Rightarrow> True | FolderCreate _ \<Rightarrow> True | _ \<Rightarrow> False)"

text \<open>A file-creation operation: \<^verbatim>\<open>vault.create\<close> or a template instantiation.\<close>

definition creates_note :: "event \<Rightarrow> bool" where
  "creates_note e =
     (case e of FileCreate _ _ \<Rightarrow> True | TemplateCreate _ _ _ _ \<Rightarrow> True | _ \<Rightarrow> False)"

definition is_file_create :: "event \<Rightarrow> bool" where
  "is_file_create e = (case e of FileCreate _ _ \<Rightarrow> True | _ \<Rightarrow> False)"

definition is_template_create :: "event \<Rightarrow> bool" where
  "is_template_create e = (case e of TemplateCreate _ _ _ _ \<Rightarrow> True | _ \<Rightarrow> False)"

text \<open>
  A call that opens a note in the editor: \<^verbatim>\<open>openLinkText\<close>, or a template
  instantiation whose last argument asks Templater to open the file after creation.
\<close>

definition opens_note :: "event \<Rightarrow> bool" where
  "opens_note e =
     (case e of OpenLink _ \<Rightarrow> True | TemplateCreate _ _ _ opn \<Rightarrow> opn | _ \<Rightarrow> False)"

definition is_folder_create :: "event \<Rightarrow> bool" where
  "is_folder_create e = (case e of FolderCreate _ \<Rightarrow> True | _ \<Rightarrow> False)"

definition is_delay :: "event \<Rightarrow> bool" where
  "is_delay e = (case e of Delay _ \<Rightarrow> True | _ \<Rightarrow> False)"

text \<open>Some delay in the list is followed, later in the list, by a call that opens a note.\<close>

fun delay_before_open :: "event list \<Rightarrow> bool" where
  "delay_before_open [] = False"
| "delay_before_open (e # es) = ((is_delay e \<and> list_ex opens_note es) \<or> delay_before_open es)"

text \<open>
  The kinds of call the specification orders. A template instantiation with the open flag
  set creates the note and then opens it; lookups of files and delays are of no kind.
\<close>

datatype call_kind = PluginLookupCall | FolderCreation | NoteCreation | OpenInEditor

definition call_kinds :: "event \<Rightarrow> call_kind list" where
  "call_kinds e =
     (case e of
        PluginLookup _ \<Rightarrow> [PluginLookupCall]
      | FolderCreate _ \<Rightarrow> [FolderCreation]
      | FileCreate _ _ \<Rightarrow> [NoteCreation]
      | TemplateCreate _ _ _ opn \<Rightarrow> NoteCreation # (if opn then [OpenInEditor] else [])
      | OpenLink _ \<Rightarrow> [OpenInEditor]
      | _ \<Rightarrow> [])"

text \<open>The lookup \<^verbatim>\<open>getTemplateFile\<close> makes: none for an empty template path.\<close>

definition template_lookup :: "string \<Rightarrow> event list" where
  "template_lookup tp = (if tp = [] then [] else [FileLookup (tp @ ''.md'')])"

text \<open>The calls of \<^verbatim>\<open>createNoteWithTemplate\<close>, in its two branches.\<close>

definition creation_calls ::
  "string \<Rightarrow> string \<Rightarrow> string \<Rightarrow> templater_plugin option \<Rightarrow> string option \<Rightarrow> event list" where
  "creation_calls filePath fullDir fname templaterPlugin templateFile =
     (case (templateFile, has_templater templaterPlugin) of
        (Some tf, Some t) \<Rightarrow>
          [TemplateCreate tf fullDir (substring_from fname (lastIndexOf fname slash + 1)) True,
           Delay 300]
      | _ \<Rightarrow> [FileCreate filePath [], Delay 300, OpenLink filePath])"

text \<open>The successive values of \<^verbatim>\<open>currentPath\<close> in the loop of \<^verbatim>\<open>ensureFoldersExist\<close>.\<close>

fun currentPaths :: "string list \<Rightarrow> string \<Rightarrow> string list" where
  "currentPaths [] cur = []"
| "currentPaths (part # parts) cur =
     (let c = (if cur \<noteq> [] then cur @ [slash] @ part else part)
      in c # currentPaths parts c)"

text \<open>What one round of the loop calls, given the vault it finds.\<close>

definition folder_calls :: "vault_map \<Rightarrow> string \<Rightarrow> event list" where
  "folder_calls v p = (if v p = None then [FileLookup p, FolderCreate p] else [FileLookup p])"

text \<open>
  The slash-separated prefixes of a path, shortest first, written from the words of the
  specification and not from the loop: the prefixes \<open>p\<close> of the path whose rest is empty
  or begins with a slash (lemma \<open>dir_prefixes_iff\<close>).
\<close>

fun dir_prefixes :: "string \<Rightarrow> string list" where
  "dir_prefixes [] = [[]]"
| "dir_prefixes (x # xs) = (if x = slash then [[]] else []) @ map ((#) x) (dir_prefixes xs)"

text \<open>
  The words of the specification for a date text that cannot be used: it is absent, it is
  empty, or it fails to parse under every format tried.
\<close>

definition date_text_unusable :: "dayjs_lib \<Rightarrow> string list \<Rightarrow> string option \<Rightarrow> bool" where
  "date_text_unusable lib formats t =
     (case t of None \<Rightarrow> True | Some s \<Rightarrow> s = [] \<or> parseDate lib s formats = None)"

text \<open>A click on the \<open>i\<close>-th item of the menu shown, if there is one.\<close>

definition click_item :: "menu_item list option \<Rightarrow> nat \<Rightarrow> world \<Rightarrow> world" where
  "click_item menu i w =
     (case menu of
        None \<Rightarrow> w
      | Some items \<Rightarrow> if i < length items then onClick (items ! i) w else w)"

section \<open>Concrete inputs\<close>

definition w_empty :: world where
  "w_empty = \<lparr>vault = Map.empty, trace = []\<rparr>"

definition w_note :: world where
  "w_note = \<lparr>vault = [''Daily/2024-01-01.md'' \<mapsto> TFile], trace = []\<rparr>"

definition w_template :: world where
  "w_template = \<lparr>vault = [''Templates/daily.md'' \<mapsto> TFile], trace = []\<rparr>"

definition w_daily_folder :: world where
  "w_daily_folder = \<lparr>vault = [''Daily'' \<mapsto> TFolder], trace = []\<rparr>"

definition cfg_daily :: NoteCreationConfig where
  "cfg_daily = \<lparr>fileName = ''2024-01-01'', folder = ''Daily'', templatePath = ''Templates/daily''\<rparr>"

definition app_plain :: app where
  "app_plain = \<lparr>app_plugins = None, internalPlugins = None\<rparr>"

text \<open>A Templater that writes the new note into the folder it is given.\<close>

definition templater_example :: templater_fn where
  "templater_example tf dir name opn v = v(dir @ [slash] @ name @ ''.md'' \<mapsto> TFile)"

definition app_templater :: app where
  "app_templater =
     \<lparr>app_plugins = Some \<lparr>registry_plugins =
        Some [''templater-obsidian'' \<mapsto> \<lparr>templater = Some templater_example\<rparr>]\<rparr>,
      internalPlugins = Some \<lparr>internal_registry_plugins =
        Some [''daily-notes'' \<mapsto> \<lparr>enabled = True, instance_options =
          Some \<lparr>opt_format = None, opt_folder = Some ''Daily'',
                opt_template = Some ''Templates/daily''\<rparr>\<rparr>]\<rparr>\<rparr>"

text \<open>
  A stand-in for dayjs: it knows two texts, and prints a date as the abbreviation of its
  month followed by the format.
\<close>

definition month_abbr :: "int \<Rightarrow> string" where
  "month_abbr m =
     (if 0 \<le> m \<and> m < 12
      then [''Jan'', ''Feb'', ''Mar'', ''Apr'', ''May'', ''Jun'',
            ''Jul'', ''Aug'', ''Sep'', ''Oct'', ''Nov'', ''Dec''] ! nat m
      else ''???'')"

definition lib_example :: dayjs_lib where
  "lib_example =
     \<lparr>dj_parse = (\<lambda>s f.
        if s = ''January 1, 2024'' \<and> f = ''MMMM D, YYYY'' then Some \<lparr>year = 2024, month = 0, day = 1\<rparr>
        else if s = ''Aug 2024'' \<and> f = ''MMM YYYY'' then Some \<lparr>year = 2024, month = 7, day = 1\<rparr>
        else None),
      dj_format = (\<lambda>d f. month_abbr (month d) @ '' '' @ f)\<rparr>"

definition settings_example :: settings where
  "settings_example =
     \<lparr>weeklyNoteFormat = ''W'', weeklyNoteFolder = ''Weekly'', weeklyNoteTemplate = [],
      monthlyNoteFormat = ''M'', monthlyNoteFolder = ''Monthly'', monthlyNoteTemplate = [],
      quarterlyNoteFormat = ''Q'', quarterlyNoteFolder = ''Quarterly'', quarterlyNoteTemplate = []\<rparr>"

definition cal_example :: calendar_dom where
  "cal_example = \<lparr>weekNumberTiles = [10, 11],
     dayTiles = replicate 7 (Some ''January 1, 2024'') @ replicate 7 (Some ''not a date'')\<rparr>"

section \<open>Lemmas on the trace\<close>

lemma new_events_append: "trace w' = trace w @ es \<Longrightarrow> new_events w w' = es"
  by (simp add: new_events_def)

lemma ensureFolders_loop_trace:
  "\<exists>fs. trace (ensureFolders_loop ps cur w) = trace w @ fs \<and> list_all is_folder_event fs"
proof (induction ps arbitrary: cur w)
  case Nil
  show ?case by simp
next
  case (Cons p ps)
  define c where "c = (if cur \<noteq> [] then cur @ [slash] @ p else p)"
  define w2 where "w2 = (if vault w c = None then createFolder c (log_event (FileLookup c) w)
                         else log_event (FileLookup c) w)"
  have step: "ensureFolders_loop (p # ps) cur w = ensureFolders_loop ps c w2"
    by (simp add: c_def w2_def getAbstractFileByPath_def Let_def)
  have "\<exists>gs. trace w2 = trace w @ gs \<and> list_all is_folder_event gs"
    by (simp add: w2_def createFolder_def log_event_def is_folder_event_def)
  then obtain gs where gs: "trace w2 = trace w @ gs" "list_all is_folder_event gs" by blast
  from Cons.IH [of c w2] obtain fs where
    fs: "trace (ensureFolders_loop ps c w2) = trace w2 @ fs" "list_all is_folder_event fs" by blast
  have "trace (ensureFolders_loop (p # ps) cur w) = trace w @ (gs @ fs)"
    using step fs gs by simp
  moreover have "list_all is_folder_event (gs @ fs)" using fs gs by simp
  ultimately show ?case by blast
qed

lemma ensureFoldersExist_trace:
  "\<exists>fs. trace (ensureFoldersExist d w) = trace w @ fs \<and> list_all is_folder_event fs"
  using ensureFolders_loop_trace [of "split_on slash d" "[]" w]
  by (simp add: ensureFoldersExist_def)

lemma createNoteWithTemplate_trace:
  "trace (createNoteWithTemplate fp d n pl tf w) = trace w @ creation_calls fp d n pl tf"
  by (simp add: createNoteWithTemplate_def creation_calls_def create_new_note_from_template_def
      delay_def vault_create_def openLinkText_def log_event_def Let_def split: option.splits)

lemma openOrCreateNote_existing:
  "vault w (resolve_filePath c) \<noteq> None \<Longrightarrow>
   openOrCreateNote a c w =
     w\<lparr>trace := trace w @ [FileLookup (resolve_filePath c), OpenLink (resolve_filePath c)]\<rparr>"
  by (auto simp add: openOrCreateNote_def openExistingNote_def getAbstractFileByPath_def
      openLinkText_def log_event_def Let_def)

lemma getTemplaterPlugin_fst: "fst (getTemplaterPlugin a w) = fst (getTemplaterPlugin a w')"
  by (simp add: getTemplaterPlugin_def)

lemma getTemplateFile_fst:
  "vault w' = vault w \<Longrightarrow> fst (getTemplateFile tp w') = fst (getTemplateFile tp w)"
  by (simp add: getTemplateFile_def getAbstractFileByPath_def)

lemma getTemplateFile_snd:
  "trace (snd (getTemplateFile tp w)) = trace w @ template_lookup tp"
  by (simp add: getTemplateFile_def getAbstractFileByPath_def template_lookup_def log_event_def)

text \<open>
  The whole run when the note is missing: the existence check, the plugin lookup, the
  template lookup, the calls of \<^verbatim>\<open>ensureFoldersExist\<close>, then the creation calls.
\<close>

lemma openOrCreateNote_missing:
  assumes "vault w (resolve_filePath c) = None"
  shows "\<exists>fs. list_all is_folder_event fs \<and>
    trace (openOrCreateNote a c w) =
      trace w @ [FileLookup (resolve_filePath c), PluginLookup ''templater-obsidian'']
        @ template_lookup (templatePath c) @ fs
        @ creation_calls (resolve_filePath c)
            (substring (resolve_filePath c) 0 (lastIndexOf (resolve_filePath c) slash))
            (fileName c) (fst (getTemplaterPlugin a w)) (fst (getTemplateFile (templatePath c) w))"
proof -
  define fp where "fp = resolve_filePath c"
  define w1 where "w1 = log_event (FileLookup fp) w"
  define w2 where "w2 = snd (getTemplaterPlugin a w1)"
  define w3 where "w3 = snd (getTemplateFile (templatePath c) w2)"
  define d where "d = substring fp 0 (lastIndexOf fp slash)"
  define w4 where "w4 = ensureFoldersExist d w3"
  have run: "openOrCreateNote a c w =
      createNoteWithTemplate fp d (fileName c) (fst (getTemplaterPlugin a w1))
        (fst (getTemplateFile (templatePath c) w2)) w4"
    using assms
    by (simp add: openOrCreateNote_def openExistingNote_def getAbstractFileByPath_def
        Let_def split_beta fp_def w1_def w2_def w3_def d_def w4_def)
  have v2: "vault w2 = vault w"
    by (simp add: w2_def w1_def getTemplaterPlugin_def log_event_def)
  have t2: "trace w2 = trace w @ [FileLookup fp, PluginLookup ''templater-obsidian'']"
    by (simp add: w2_def w1_def getTemplaterPlugin_def log_event_def)
  have t3: "trace w3 = trace w2 @ template_lookup (templatePath c)"
    by (simp add: w3_def getTemplateFile_snd)
  obtain fs where fs: "trace w4 = trace w3 @ fs" "list_all is_folder_event fs"
    using ensureFoldersExist_trace [of d w3] by (auto simp: w4_def)
  have "trace (openOrCreateNote a c w) =
      trace w @ [FileLookup fp, PluginLookup ''templater-obsidian'']
        @ template_lookup (templatePath c) @ fs
        @ creation_calls fp d (fileName c) (fst (getTemplaterPlugin a w))
            (fst (getTemplateFile (templatePath c) w))"
    using run fs(1) t3 t2 getTemplaterPlugin_fst [of a w1 w] getTemplateFile_fst [OF v2]
    by (simp add: createNoteWithTemplate_trace)
  with fs(2) show ?thesis unfolding fp_def d_def by blast
qed

lemma folder_event_simps:
  "is_folder_event e \<Longrightarrow> \<not> creates_note e \<and> \<not> opens_note e \<and> \<not> is_delay e
     \<and> \<not> is_file_create e \<and> \<not> is_template_create e"
  by (cases e) (simp_all add: is_folder_event_def creates_note_def opens_note_def is_delay_def
      is_file_create_def is_template_create_def)

lemma filter_folder_events:
  "list_all is_folder_event fs \<Longrightarrow>
   filter creates_note fs = [] \<and> filter opens_note fs = [] \<and> filter is_delay fs = []
   \<and> filter is_file_create fs = [] \<and> filter is_template_create fs = []"
  by (induction fs) (auto dest: folder_event_simps)

lemma filter_template_lookup:
  "filter creates_note (template_lookup tp) = [] \<and> filter opens_note (template_lookup tp) = []
   \<and> filter is_file_create (template_lookup tp) = []
   \<and> filter is_template_create (template_lookup tp) = []
   \<and> list_all is_folder_event (template_lookup tp)"
  by (simp add: template_lookup_def creates_note_def opens_note_def is_file_create_def
      is_template_create_def is_folder_event_def)

lemma creation_calls_cases:
  "(\<exists>tf n. creation_calls fp d fname pl tfile = [TemplateCreate tf d n True, Delay 300])
   \<or> creation_calls fp d fname pl tfile = [FileCreate fp [], Delay 300, OpenLink fp]"
  by (simp add: creation_calls_def split: option.splits)

lemma filter_creation_calls:
  "length (filter creates_note (creation_calls fp d fname pl tfile)) = 1"
  using creation_calls_cases [of fp d fname pl tfile]
  by (auto simp: creates_note_def)

lemma folder_events_kinds:
  "list_all is_folder_event fs \<Longrightarrow> \<exists>n. concat (map call_kinds fs) = replicate n FolderCreation"
proof (induction fs)
  case Nil
  show ?case by simp
next
  case (Cons e fs)
  then obtain n where n: "concat (map call_kinds fs) = replicate n FolderCreation" by auto
  from Cons.prems have "is_folder_event e" by simp
  then have "call_kinds e = [] \<or> call_kinds e = [FolderCreation]"
    by (cases e) (simp_all add: is_folder_event_def call_kinds_def)
  then show ?case
  proof
    assume "call_kinds e = []"
    with n show ?thesis by auto
  next
    assume "call_kinds e = [FolderCreation]"
    with n have "concat (map call_kinds (e # fs)) = replicate (Suc n) FolderCreation" by simp
    then show ?thesis by blast
  qed
qed

lemma creation_calls_kinds:
  "concat (map call_kinds (creation_calls fp d fname pl tfile)) = [NoteCreation, OpenInEditor]"
  using creation_calls_cases [of fp d fname pl tfile]
  by (auto simp: call_kinds_def)

lemma missing_decomp:
  assumes "vault w (resolve_filePath c) = None"
  obtains fs where "list_all is_folder_event fs"
    "new_events w (openOrCreateNote a c w) =
      [FileLookup (resolve_filePath c), PluginLookup ''templater-obsidian'']
        @ template_lookup (templatePath c) @ fs
        @ creation_calls (resolve_filePath c)
            (substring (resolve_filePath c) 0 (lastIndexOf (resolve_filePath c) slash))
            (fileName c) (fst (getTemplaterPlugin a w)) (fst (getTemplateFile (templatePath c) w))"
proof -
  from openOrCreateNote_missing [OF assms, of a] obtain fs where
    fs: "list_all is_folder_event fs" and
    tr: "trace (openOrCreateNote a c w) =
      trace w @ ([FileLookup (resolve_filePath c), PluginLookup ''templater-obsidian'']
        @ template_lookup (templatePath c) @ fs
        @ creation_calls (resolve_filePath c)
            (substring (resolve_filePath c) 0 (lastIndexOf (resolve_filePath c) slash))
            (fileName c) (fst (getTemplaterPlugin a w)) (fst (getTemplateFile (templatePath c) w)))"
    by auto
  from that [OF fs new_events_append [OF tr]] show thesis .
qed

lemma missing_creates:
  assumes "vault w (resolve_filePath c) = None"
  shows "filter creates_note (new_events w (openOrCreateNote a c w)) =
          filter creates_note (creation_calls (resolve_filePath c)
            (substring (resolve_filePath c) 0 (lastIndexOf (resolve_filePath c) slash))
            (fileName c) (fst (getTemplaterPlugin a w)) (fst (getTemplateFile (templatePath c) w)))"
proof -
  obtain fs where fs: "list_all is_folder_event fs" and
    ne: "new_events w (openOrCreateNote a c w) =
      [FileLookup (resolve_filePath c), PluginLookup ''templater-obsidian'']
        @ template_lookup (templatePath c) @ fs
        @ creation_calls (resolve_filePath c)
            (substring (resolve_filePath c) 0 (lastIndexOf (resolve_filePath c) slash))
            (fileName c) (fst (getTemplaterPlugin a w)) (fst (getTemplateFile (templatePath c) w))"
    using missing_decomp [OF assms] by blast
  show ?thesis
    unfolding ne
    using filter_folder_events [OF fs] filter_template_lookup [of "templatePath c"]
    by (simp add: creates_note_def)
qed

lemma filter_creates_creation_calls:
  "filter creates_note (creation_calls fp d fname pl tfile) =
     (case (tfile, has_templater pl) of
        (Some tf, Some t) \<Rightarrow>
          [TemplateCreate tf d (substring_from fname (lastIndexOf fname slash + 1)) True]
      | _ \<Rightarrow> [FileCreate fp []])"
  by (simp add: creation_calls_def creates_note_def split: option.splits)

section \<open>Two runs, evaluated\<close>

lemma example_filePath: "resolve_filePath cfg_daily = ''Daily/2024-01-01.md''"
  by (simp add: resolve_filePath_def cfg_daily_def slash_def)

lemma example_run_plain:
  "trace (openOrCreateNote app_plain cfg_daily w_empty) =
     [FileLookup ''Daily/2024-01-01.md'', PluginLookup ''templater-obsidian'',
      FileLookup ''Templates/daily.md'', FileLookup ''Daily'', FolderCreate ''Daily'',
      FileCreate ''Daily/2024-01-01.md'' [], Delay 300, OpenLink ''Daily/2024-01-01.md'']"
  by (simp add: openOrCreateNote_def resolve_filePath_def substring_def lastIndexOf_def
      slash_def openExistingNote_def getAbstractFileByPath_def getTemplaterPlugin_def getTemplateFile_def
      ensureFoldersExist_def createNoteWithTemplate_def has_templater_def createFolder_def
      vault_create_def delay_def openLinkText_def log_event_def
      w_empty_def app_plain_def cfg_daily_def Let_def)

lemma example_run_template:
  "trace (openOrCreateNote app_templater cfg_daily w_template) =
     [FileLookup ''Daily/2024-01-01.md'', PluginLookup ''templater-obsidian'',
      FileLookup ''Templates/daily.md'', FileLookup ''Daily'', FolderCreate ''Daily'',
      TemplateCreate ''Templates/daily.md'' ''Daily'' ''2024-01-01'' True, Delay 300]"
  by (simp add: openOrCreateNote_def resolve_filePath_def substring_def lastIndexOf_def
      substring_from_def slash_def openExistingNote_def getAbstractFileByPath_def getTemplaterPlugin_def getTemplateFile_def
      ensureFoldersExist_def createNoteWithTemplate_def has_templater_def createFolder_def
      create_new_note_from_template_def delay_def openLinkText_def log_event_def
      w_template_def app_templater_def cfg_daily_def Let_def)

lemma example_new_template:
  "new_events w_template (openOrCreateNote app_templater cfg_daily w_template) =
     [FileLookup ''Daily/2024-01-01.md'', PluginLookup ''templater-obsidian'',
      FileLookup ''Templates/daily.md'', FileLookup ''Daily'', FolderCreate ''Daily'',
      TemplateCreate ''Templates/daily.md'' ''Daily'' ''2024-01-01'' True, Delay 300]"
  by (simp add: new_events_def example_run_template) (simp add: w_template_def)

lemma example_new_plain:
  "new_events w_empty (openOrCreateNote app_plain cfg_daily w_empty) =
     [FileLookup ''Daily/2024-01-01.md'', PluginLookup ''templater-obsidian'',
      FileLookup ''Templates/daily.md'', FileLookup ''Daily'', FolderCreate ''Daily'',
      FileCreate ''Daily/2024-01-01.md'' [], Delay 300, OpenLink ''Daily/2024-01-01.md'']"
  by (simp add: new_events_def example_run_plain) (simp add: w_empty_def)

section \<open>Opening or creating a note\<close>

text \<open>
  \<^bold>\<open>C8.\<close> If an abstract file already exists at the resolved path,
  \<^verbatim>\<open>openOrCreateNote\<close> leaves the vault as it found it: its only calls are the existence
  check and \<^verbatim>\<open>openLinkText\<close> on that path, so it calls neither \<^verbatim>\<open>createFolder\<close> nor
  \<^verbatim>\<open>vault.create\<close> nor the template engine.
\<close>

theorem existing_note_is_only_opened:
  assumes "vault w (resolve_filePath c) \<noteq> None"
  shows "vault (openOrCreateNote a c w) = vault w \<and>
         new_events w (openOrCreateNote a c w) =
           [FileLookup (resolve_filePath c), OpenLink (resolve_filePath c)] \<and>
         filter is_folder_create (new_events w (openOrCreateNote a c w)) = [] \<and>
         filter creates_note (new_events w (openOrCreateNote a c w)) = []"
  using assms
  by (simp add: openOrCreateNote_existing new_events_def creates_note_def is_folder_create_def)

theorem existing_note_is_only_opened_witness:
  "vault w_note (resolve_filePath cfg_daily) \<noteq> None \<and>
   vault (openOrCreateNote app_plain cfg_daily w_note) = vault w_note \<and>
   new_events w_note (openOrCreateNote app_plain cfg_daily w_note) =
     [FileLookup ''Daily/2024-01-01.md'', OpenLink ''Daily/2024-01-01.md'']"
proof -
  have h: "vault w_note (resolve_filePath cfg_daily) \<noteq> None"
    by (simp add: example_filePath w_note_def)
  show ?thesis
    using h existing_note_is_only_opened [OF h, of app_plain] by (simp add: example_filePath)
qed

text \<open>
  \<^bold>\<open>C1.\<close> For every configuration, \<^verbatim>\<open>openOrCreateNote\<close> opens the note at the
  resolved path when something exists there, and otherwise begins with the existence check
  and creates the note exactly once, by \<^verbatim>\<open>vault.create\<close> of the resolved path or by a
  template instantiation; a creation call is among its calls if and only if the existence
  check fails.
\<close>

theorem open_iff_exists_create_iff_missing:
  "(vault w (resolve_filePath c) \<noteq> None \<longrightarrow>
      new_events w (openOrCreateNote a c w) =
        [FileLookup (resolve_filePath c), OpenLink (resolve_filePath c)])
   \<and> (vault w (resolve_filePath c) = None \<longrightarrow>
      hd (new_events w (openOrCreateNote a c w)) = FileLookup (resolve_filePath c)
      \<and> (filter creates_note (new_events w (openOrCreateNote a c w)) =
             [FileCreate (resolve_filePath c) []]
           \<or> (\<exists>tf dir n. filter creates_note (new_events w (openOrCreateNote a c w)) =
                 [TemplateCreate tf dir n True])))
   \<and> (list_ex creates_note (new_events w (openOrCreateNote a c w))
        \<longleftrightarrow> vault w (resolve_filePath c) = None)"
proof (cases "vault w (resolve_filePath c) = None")
  case True
  have one: "length (filter creates_note (new_events w (openOrCreateNote a c w))) = 1"
    by (simp add: missing_creates [OF True] filter_creation_calls)
  have which: "filter creates_note (new_events w (openOrCreateNote a c w)) =
             [FileCreate (resolve_filePath c) []]
           \<or> (\<exists>tf dir n. filter creates_note (new_events w (openOrCreateNote a c w)) =
                 [TemplateCreate tf dir n True])"
    unfolding missing_creates [OF True] filter_creates_creation_calls
    by (simp split: option.splits)
  from one have "filter creates_note (new_events w (openOrCreateNote a c w)) \<noteq> []"
    by auto
  then have ex: "list_ex creates_note (new_events w (openOrCreateNote a c w))"
    by (simp add: list_ex_iff filter_empty_conv)
  obtain fs where "new_events w (openOrCreateNote a c w) =
      [FileLookup (resolve_filePath c), PluginLookup ''templater-obsidian'']
        @ template_lookup (templatePath c) @ fs
        @ creation_calls (resolve_filePath c)
            (substring (resolve_filePath c) 0 (lastIndexOf (resolve_filePath c) slash))
            (fileName c) (fst (getTemplaterPlugin a w)) (fst (getTemplateFile (templatePath c) w))"
    using missing_decomp [OF True, of a] by blast
  then have first: "hd (new_events w (openOrCreateNote a c w)) = FileLookup (resolve_filePath c)"
    by simp
  from True which ex first show ?thesis by blast
next
  case False
  then have "new_events w (openOrCreateNote a c w) =
        [FileLookup (resolve_filePath c), OpenLink (resolve_filePath c)]"
    by (simp add: openOrCreateNote_existing new_events_def)
  with False show ?thesis by (simp add: creates_note_def)
qed

theorem open_iff_exists_create_iff_missing_witness:
  "vault w_note (resolve_filePath cfg_daily) \<noteq> None
   \<and> vault w_empty (resolve_filePath cfg_daily) = None
   \<and> new_events w_note (openOrCreateNote app_plain cfg_daily w_note) =
     [FileLookup ''Daily/2024-01-01.md'', OpenLink ''Daily/2024-01-01.md'']
   \<and> list_ex creates_note (new_events w_empty (openOrCreateNote app_plain cfg_daily w_empty))
   \<and> \<not> list_ex creates_note (new_events w_note (openOrCreateNote app_plain cfg_daily w_note))"
proof -
  have h1: "vault w_note (resolve_filePath cfg_daily) \<noteq> None"
    by (simp add: example_filePath w_note_def)
  have h2: "vault w_empty (resolve_filePath cfg_daily) = None"
    by (simp add: w_empty_def)
  show ?thesis
    using h1 h2 open_iff_exists_create_iff_missing [of w_note cfg_daily app_plain]
      open_iff_exists_create_iff_missing [of w_empty cfg_daily app_plain]
    by (auto simp: example_filePath)
qed

text \<open>
  \<^bold>\<open>C2.\<close> One call of \<^verbatim>\<open>openOrCreateNote\<close> performs at most one file-creation
  operation: none when the file already exists, and never both a \<^verbatim>\<open>vault.create\<close> and a
  template instantiation.
\<close>

theorem at_most_one_creation:
  "length (filter creates_note (new_events w (openOrCreateNote a c w))) \<le> 1
   \<and> (vault w (resolve_filePath c) \<noteq> None \<longrightarrow>
        filter creates_note (new_events w (openOrCreateNote a c w)) = [])
   \<and> \<not> (list_ex is_file_create (new_events w (openOrCreateNote a c w))
         \<and> list_ex is_template_create (new_events w (openOrCreateNote a c w)))"
proof (cases "vault w (resolve_filePath c) = None")
  case True
  let ?cs = "creation_calls (resolve_filePath c)
            (substring (resolve_filePath c) 0 (lastIndexOf (resolve_filePath c) slash))
            (fileName c) (fst (getTemplaterPlugin a w)) (fst (getTemplateFile (templatePath c) w))"
  have one: "length (filter creates_note (new_events w (openOrCreateNote a c w))) = 1"
    by (simp add: missing_creates [OF True] filter_creation_calls)
  have sub: "is_file_create e \<or> is_template_create e \<Longrightarrow> creates_note e" for e
    by (cases e) (simp_all add: is_file_create_def is_template_create_def creates_note_def)
  have both: "list_ex is_file_create es \<and> list_ex is_template_create es
      \<longleftrightarrow> list_ex is_file_create (filter creates_note es)
         \<and> list_ex is_template_create (filter creates_note es)" for es
    using sub by (auto simp: list_ex_iff)
  have "\<not> (list_ex is_file_create (filter creates_note ?cs)
         \<and> list_ex is_template_create (filter creates_note ?cs))"
    by (simp add: filter_creates_creation_calls is_file_create_def is_template_create_def
        split: option.splits)
  then have "\<not> (list_ex is_file_create (new_events w (openOrCreateNote a c w))
         \<and> list_ex is_template_create (new_events w (openOrCreateNote a c w)))"
    using both [of "new_events w (openOrCreateNote a c w)"] missing_creates [OF True, of a]
    by simp
  with one True show ?thesis by simp
next
  case False
  then show ?thesis
    by (simp add: openOrCreateNote_existing new_events_def creates_note_def
        is_file_create_def is_template_create_def)
qed

theorem at_most_one_creation_witness:
  "vault w_note (resolve_filePath cfg_daily) \<noteq> None
   \<and> filter creates_note (new_events w_note (openOrCreateNote app_plain cfg_daily w_note)) = []
   \<and> length (filter creates_note (new_events w_empty (openOrCreateNote app_plain cfg_daily w_empty))) \<le> 1"
proof -
  have h1: "vault w_note (resolve_filePath cfg_daily) \<noteq> None"
    by (simp add: example_filePath w_note_def)
  show ?thesis
    using h1 at_most_one_creation [of w_note app_plain cfg_daily]
      at_most_one_creation [of w_empty app_plain cfg_daily]
    by auto
qed

text \<open>
  \<^bold>\<open>C3.\<close> When the target file does not exist, the calls of \<^verbatim>\<open>openOrCreateNote\<close>
  come in a fixed order: the existence check of the target, the lookup of the Templater
  plugin, the lookup of the template file (when a template path is configured), the
  existence checks and folder creations of \<^verbatim>\<open>ensureFoldersExist\<close>, and last the creation:
  either \<^verbatim>\<open>vault.create\<close>, the delay and \<^verbatim>\<open>openLinkText\<close>, or the template instantiation
  that is asked to open the note itself, and the delay. By kind, the calls after the
  existence check are: the plugin lookup, the folder creations, the creation of the note,
  the opening in the editor.
\<close>

theorem missing_note_call_order:
  assumes "vault w (resolve_filePath c) = None"
  shows "\<exists>fs cs n. new_events w (openOrCreateNote a c w) =
           [FileLookup (resolve_filePath c)] @ [PluginLookup ''templater-obsidian'']
             @ template_lookup (templatePath c) @ fs @ cs
         \<and> list_all is_folder_event fs
         \<and> (cs = [FileCreate (resolve_filePath c) [], Delay 300, OpenLink (resolve_filePath c)]
            \<or> (\<exists>tf nm. cs = [TemplateCreate tf
                  (substring (resolve_filePath c) 0 (lastIndexOf (resolve_filePath c) slash))
                  nm True, Delay 300]))
         \<and> concat (map call_kinds (new_events w (openOrCreateNote a c w))) =
             [PluginLookupCall] @ replicate n FolderCreation @ [NoteCreation, OpenInEditor]"
proof -
  let ?d = "substring (resolve_filePath c) 0 (lastIndexOf (resolve_filePath c) slash)"
  let ?cs = "creation_calls (resolve_filePath c) ?d
            (fileName c) (fst (getTemplaterPlugin a w)) (fst (getTemplateFile (templatePath c) w))"
  obtain fs where fs: "list_all is_folder_event fs" and
    ne: "new_events w (openOrCreateNote a c w) =
      [FileLookup (resolve_filePath c), PluginLookup ''templater-obsidian'']
        @ template_lookup (templatePath c) @ fs @ ?cs"
    using missing_decomp [OF assms] by blast
  have cs: "?cs = [FileCreate (resolve_filePath c) [], Delay 300, OpenLink (resolve_filePath c)]
            \<or> (\<exists>tf nm. ?cs = [TemplateCreate tf ?d nm True, Delay 300])"
    using creation_calls_cases [of "resolve_filePath c" ?d] by blast
  obtain n where n: "concat (map call_kinds fs) = replicate n FolderCreation"
    using folder_events_kinds [OF fs] by blast
  have tk: "concat (map call_kinds (template_lookup (templatePath c))) = []"
    by (simp add: template_lookup_def call_kinds_def)
  have k: "concat (map call_kinds (new_events w (openOrCreateNote a c w))) =
             [PluginLookupCall] @ replicate n FolderCreation @ [NoteCreation, OpenInEditor]"
    unfolding ne by (simp add: n tk creation_calls_kinds) (simp add: call_kinds_def)
  from ne fs cs k show ?thesis
    by (intro exI [of _ fs] exI [of _ ?cs] exI [of _ n]) simp
qed

theorem missing_note_call_order_witness:
  "vault w_empty (resolve_filePath cfg_daily) = None \<and>
   (\<exists>fs cs n. new_events w_empty (openOrCreateNote app_plain cfg_daily w_empty) =
           [FileLookup (resolve_filePath cfg_daily)] @ [PluginLookup ''templater-obsidian'']
             @ template_lookup (templatePath cfg_daily) @ fs @ cs
         \<and> list_all is_folder_event fs
         \<and> (cs = [FileCreate (resolve_filePath cfg_daily) [], Delay 300,
                  OpenLink (resolve_filePath cfg_daily)]
            \<or> (\<exists>tf nm. cs = [TemplateCreate tf
                  (substring (resolve_filePath cfg_daily) 0
                     (lastIndexOf (resolve_filePath cfg_daily) slash))
                  nm True, Delay 300]))
         \<and> concat (map call_kinds (new_events w_empty (openOrCreateNote app_plain cfg_daily w_empty))) =
             [PluginLookupCall] @ replicate n FolderCreation @ [NoteCreation, OpenInEditor])
   \<and> concat (map call_kinds (new_events w_empty (openOrCreateNote app_plain cfg_daily w_empty)))
       = [PluginLookupCall, FolderCreation, NoteCreation, OpenInEditor]
   \<and> concat (map call_kinds (new_events w_template (openOrCreateNote app_templater cfg_daily w_template)))
       = [PluginLookupCall, FolderCreation, NoteCreation, OpenInEditor]"
proof -
  have h: "vault w_empty (resolve_filePath cfg_daily) = None"
    by (simp add: w_empty_def)
  have k: "concat (map call_kinds (new_events w_empty (openOrCreateNote app_plain cfg_daily w_empty)))
       = [PluginLookupCall, FolderCreation, NoteCreation, OpenInEditor]"
    "concat (map call_kinds (new_events w_template (openOrCreateNote app_templater cfg_daily w_template)))
       = [PluginLookupCall, FolderCreation, NoteCreation, OpenInEditor]"
    unfolding example_new_plain example_new_template by (simp_all add: call_kinds_def)
  show ?thesis using h k missing_note_call_order [OF h, of app_plain] by blast
qed

section \<open>The delay, the template, the path\<close>

lemma delay_before_open_skip:
  "list_all (\<lambda>e. \<not> is_delay e) xs \<Longrightarrow> delay_before_open (xs @ ys) = delay_before_open ys"
  by (induction xs) auto

lemma folder_events_no_delay: "list_all is_folder_event fs \<Longrightarrow> list_all (\<lambda>e. \<not> is_delay e) fs"
  by (induction fs) (auto dest: folder_event_simps)

lemma missing_delay_before_open:
  assumes "vault w (resolve_filePath c) = None"
  shows "delay_before_open (new_events w (openOrCreateNote a c w)) =
          delay_before_open (creation_calls (resolve_filePath c)
            (substring (resolve_filePath c) 0 (lastIndexOf (resolve_filePath c) slash))
            (fileName c) (fst (getTemplaterPlugin a w)) (fst (getTemplateFile (templatePath c) w)))"
proof -
  obtain fs where fs: "list_all is_folder_event fs" and
    ne: "new_events w (openOrCreateNote a c w) =
      [FileLookup (resolve_filePath c), PluginLookup ''templater-obsidian'']
        @ template_lookup (templatePath c) @ fs
        @ creation_calls (resolve_filePath c)
            (substring (resolve_filePath c) 0 (lastIndexOf (resolve_filePath c) slash))
            (fileName c) (fst (getTemplaterPlugin a w)) (fst (getTemplateFile (templatePath c) w))"
    using missing_decomp [OF assms] by blast
  have "list_all (\<lambda>e. \<not> is_delay e)
          ([FileLookup (resolve_filePath c), PluginLookup ''templater-obsidian'']
            @ template_lookup (templatePath c) @ fs)"
    using folder_events_no_delay [OF fs]
    by (simp add: is_delay_def template_lookup_def)
  from delay_before_open_skip [OF this] show ?thesis
    unfolding ne by simp
qed

text \<open>
  \<^bold>\<open>C4, as the code has it.\<close> When \<^verbatim>\<open>openOrCreateNote\<close> creates a note, the fixed
  delay of 300 ms follows the creation call. In the empty-file branch the run ends with
  \<^verbatim>\<open>vault.create\<close>, the delay, \<^verbatim>\<open>openLinkText\<close>: the delay comes before the note is
  opened. In the template branch the run ends with the template instantiation, which is
  asked to open the note itself, and then the delay: no call that opens the note follows
  the delay.
\<close>

theorem delay_after_creation:
  assumes "vault w (resolve_filePath c) = None"
  shows "(fst (getTemplateFile (templatePath c) w) = None
            \<or> has_templater (fst (getTemplaterPlugin a w)) = None \<longrightarrow>
          (\<exists>pre. new_events w (openOrCreateNote a c w) =
             pre @ [FileCreate (resolve_filePath c) [], Delay 300, OpenLink (resolve_filePath c)])
          \<and> delay_before_open (new_events w (openOrCreateNote a c w)))
       \<and> (fst (getTemplateFile (templatePath c) w) \<noteq> None
            \<and> has_templater (fst (getTemplaterPlugin a w)) \<noteq> None \<longrightarrow>
          (\<exists>pre tf dir n. new_events w (openOrCreateNote a c w) =
             pre @ [TemplateCreate tf dir n True, Delay 300])
          \<and> \<not> delay_before_open (new_events w (openOrCreateNote a c w)))"
proof -
  let ?d = "substring (resolve_filePath c) 0 (lastIndexOf (resolve_filePath c) slash)"
  let ?cs = "creation_calls (resolve_filePath c) ?d
            (fileName c) (fst (getTemplaterPlugin a w)) (fst (getTemplateFile (templatePath c) w))"
  obtain fs where
    ne: "new_events w (openOrCreateNote a c w) =
      ([FileLookup (resolve_filePath c), PluginLookup ''templater-obsidian'']
        @ template_lookup (templatePath c) @ fs) @ ?cs"
    using missing_decomp [OF assms, of a] by (metis append_assoc)
  have dl: "delay_before_open (new_events w (openOrCreateNote a c w)) = delay_before_open ?cs"
    by (rule missing_delay_before_open [OF assms])
  show ?thesis
  proof (cases "fst (getTemplateFile (templatePath c) w) = None
            \<or> has_templater (fst (getTemplaterPlugin a w)) = None")
    case True
    then have cs: "?cs = [FileCreate (resolve_filePath c) [], Delay 300, OpenLink (resolve_filePath c)]"
      by (auto simp: creation_calls_def split: option.splits)
    have "delay_before_open ?cs"
      unfolding cs by (simp add: is_delay_def opens_note_def)
    with True ne cs dl show ?thesis by auto
  next
    case False
    then obtain tf t where tf: "fst (getTemplateFile (templatePath c) w) = Some tf"
      "has_templater (fst (getTemplaterPlugin a w)) = Some t" by auto
    then have cs: "?cs = [TemplateCreate tf ?d
        (substring_from (fileName c) (lastIndexOf (fileName c) slash + 1)) True, Delay 300]"
      by (simp add: creation_calls_def)
    have "\<not> delay_before_open ?cs"
      unfolding cs by (simp add: is_delay_def)
    with False ne cs dl show ?thesis by auto
  qed
qed

text \<open>
  \<^bold>\<open>C4, as stated, fails in the template branch.\<close> With the Templater plugin installed
  and the template file present, the run creates the note through Templater with the
  open flag set and only then waits: no delay comes before a call that opens the note.
\<close>

theorem template_branch_opens_before_delay:
  "vault w_template (resolve_filePath cfg_daily) = None
   \<and> new_events w_template (openOrCreateNote app_templater cfg_daily w_template) =
     [FileLookup ''Daily/2024-01-01.md'', PluginLookup ''templater-obsidian'',
      FileLookup ''Templates/daily.md'', FileLookup ''Daily'', FolderCreate ''Daily'',
      TemplateCreate ''Templates/daily.md'' ''Daily'' ''2024-01-01'' True, Delay 300]
   \<and> list_ex creates_note (new_events w_template (openOrCreateNote app_templater cfg_daily w_template))
   \<and> \<not> delay_before_open (new_events w_template (openOrCreateNote app_templater cfg_daily w_template))"
  unfolding example_new_template
  by (simp add: example_filePath w_template_def creates_note_def is_delay_def opens_note_def)

theorem delay_after_creation_witness:
  "vault w_empty (resolve_filePath cfg_daily) = None
   \<and> delay_before_open (new_events w_empty (openOrCreateNote app_plain cfg_daily w_empty))
   \<and> vault w_template (resolve_filePath cfg_daily) = None
   \<and> \<not> delay_before_open (new_events w_template (openOrCreateNote app_templater cfg_daily w_template))"
proof -
  have h1: "vault w_empty (resolve_filePath cfg_daily) = None"
    by (simp add: w_empty_def)
  have h2: "vault w_template (resolve_filePath cfg_daily) = None"
    by (simp add: example_filePath w_template_def)
  have p: "has_templater (fst (getTemplaterPlugin app_plain w_empty)) = None"
    by (simp add: getTemplaterPlugin_def app_plain_def has_templater_def)
  have t1: "fst (getTemplateFile (templatePath cfg_daily) w_template) \<noteq> None"
    by (simp add: getTemplateFile_def getAbstractFileByPath_def cfg_daily_def w_template_def)
  have t2: "has_templater (fst (getTemplaterPlugin app_templater w_template)) \<noteq> None"
    by (simp add: getTemplaterPlugin_def app_templater_def has_templater_def)
  show ?thesis
    using h1 h2 p t1 t2 delay_after_creation [OF h1, of app_plain]
      delay_after_creation [OF h2, of app_templater]
    by blast
qed

text \<open>
  \<^bold>\<open>C5.\<close> When a note is created, the template engine is instantiated if and only if
  \<^verbatim>\<open>getTemplateFile\<close> finds a file (the template path is not empty and
  \<^verbatim>\<open>templatePath.md\<close> is a \<^verbatim>\<open>TFile\<close> of the vault) and the plugin
  \<^verbatim>\<open>templater-obsidian\<close> is installed with a \<^verbatim>\<open>templater\<close> object; in every other case
  the one creation call is \<^verbatim>\<open>vault.create\<close> of the resolved path with empty content.
\<close>

theorem template_iff_file_and_plugin:
  assumes "vault w (resolve_filePath c) = None"
  shows "(list_ex is_template_create (new_events w (openOrCreateNote a c w)) \<longleftrightarrow>
            fst (getTemplateFile (templatePath c) w) \<noteq> None
            \<and> has_templater (fst (getTemplaterPlugin a w)) \<noteq> None)
       \<and> (\<not> list_ex is_template_create (new_events w (openOrCreateNote a c w)) \<longrightarrow>
            filter creates_note (new_events w (openOrCreateNote a c w)) =
              [FileCreate (resolve_filePath c) []])
       \<and> (fst (getTemplateFile (templatePath c) w) \<noteq> None \<longleftrightarrow>
            templatePath c \<noteq> [] \<and> vault w (templatePath c @ ''.md'') = Some TFile)
       \<and> (has_templater (fst (getTemplaterPlugin a w)) \<noteq> None \<longleftrightarrow>
            (\<exists>r m p t. app_plugins a = Some r \<and> registry_plugins r = Some m
               \<and> m ''templater-obsidian'' = Some p \<and> templater p = Some t))"
proof -
  let ?d = "substring (resolve_filePath c) 0 (lastIndexOf (resolve_filePath c) slash)"
  let ?cs = "creation_calls (resolve_filePath c) ?d
            (fileName c) (fst (getTemplaterPlugin a w)) (fst (getTemplateFile (templatePath c) w))"
  let ?new = "new_events w (openOrCreateNote a c w)"
  have sub: "is_template_create e \<Longrightarrow> creates_note e" for e
    by (cases e) (simp_all add: is_template_create_def creates_note_def)
  have "list_ex is_template_create ?new = list_ex is_template_create (filter creates_note ?new)"
    using sub by (auto simp: list_ex_iff)
  also have "\<dots> = list_ex is_template_create (filter creates_note ?cs)"
    by (simp add: missing_creates [OF assms])
  also have "\<dots> = (fst (getTemplateFile (templatePath c) w) \<noteq> None
            \<and> has_templater (fst (getTemplaterPlugin a w)) \<noteq> None)"
    by (auto simp: filter_creates_creation_calls is_template_create_def split: option.splits)
  finally have A: "list_ex is_template_create ?new \<longleftrightarrow>
            fst (getTemplateFile (templatePath c) w) \<noteq> None
            \<and> has_templater (fst (getTemplaterPlugin a w)) \<noteq> None" .
  have B: "\<not> list_ex is_template_create ?new \<longrightarrow>
            filter creates_note ?new = [FileCreate (resolve_filePath c) []]"
    unfolding A by (auto simp: missing_creates [OF assms] filter_creates_creation_calls
        split: option.splits)
  have C: "fst (getTemplateFile (templatePath c) w) \<noteq> None \<longleftrightarrow>
            templatePath c \<noteq> [] \<and> vault w (templatePath c @ ''.md'') = Some TFile"
    by (auto simp: getTemplateFile_def getAbstractFileByPath_def split: option.splits node.splits)
  have D: "has_templater (fst (getTemplaterPlugin a w)) \<noteq> None \<longleftrightarrow>
            (\<exists>r m p t. app_plugins a = Some r \<and> registry_plugins r = Some m
               \<and> m ''templater-obsidian'' = Some p \<and> templater p = Some t)"
    by (auto simp: getTemplaterPlugin_def has_templater_def split: option.splits)
  from A B C D show ?thesis by blast
qed

theorem template_iff_file_and_plugin_witness:
  "vault w_template (resolve_filePath cfg_daily) = None
   \<and> list_ex is_template_create (new_events w_template (openOrCreateNote app_templater cfg_daily w_template))
   \<and> vault w_template (resolve_filePath cfg_daily) = None
   \<and> filter creates_note (new_events w_template (openOrCreateNote app_plain cfg_daily w_template))
       = [FileCreate ''Daily/2024-01-01.md'' []]"
proof -
  have h2: "vault w_template (resolve_filePath cfg_daily) = None"
    by (simp add: example_filePath w_template_def)
  have p: "has_templater (fst (getTemplaterPlugin app_plain w_template)) = None"
    by (simp add: getTemplaterPlugin_def app_plain_def has_templater_def)
  have t1: "fst (getTemplateFile (templatePath cfg_daily) w_template) \<noteq> None"
    by (simp add: getTemplateFile_def getAbstractFileByPath_def cfg_daily_def w_template_def)
  have t2: "has_templater (fst (getTemplaterPlugin app_templater w_template)) \<noteq> None"
    by (simp add: getTemplaterPlugin_def app_templater_def has_templater_def)
  show ?thesis
    using h2 p t1 t2 template_iff_file_and_plugin [OF h2, of app_plain]
      template_iff_file_and_plugin [OF h2, of app_templater]
    by (auto simp: example_filePath)
qed

text \<open>
  \<^bold>\<open>C6.\<close> The path \<^verbatim>\<open>openOrCreateNote\<close> works on is \<^verbatim>\<open>folder/fileName.md\<close> when the
  folder is not empty and \<^verbatim>\<open>fileName.md\<close> when it is: that path is the one checked for
  existence first, the one opened when it exists, and the one created and opened when it
  is missing and no template is instantiated.
\<close>

theorem filePath_resolution:
  "resolve_filePath c =
     (if folder c = [] then fileName c @ ''.md'' else folder c @ ''/'' @ fileName c @ ''.md'')
   \<and> new_events w (openOrCreateNote a c w) \<noteq> []
   \<and> hd (new_events w (openOrCreateNote a c w)) = FileLookup (resolve_filePath c)
   \<and> (vault w (resolve_filePath c) \<noteq> None \<longrightarrow>
        last (new_events w (openOrCreateNote a c w)) = OpenLink (resolve_filePath c))
   \<and> (vault w (resolve_filePath c) = None \<and> \<not> list_ex is_template_create (new_events w (openOrCreateNote a c w)) \<longrightarrow>
        filter creates_note (new_events w (openOrCreateNote a c w)) = [FileCreate (resolve_filePath c) []]
        \<and> last (new_events w (openOrCreateNote a c w)) = OpenLink (resolve_filePath c))"
proof -
  let ?new = "new_events w (openOrCreateNote a c w)"
  let ?fp = "resolve_filePath c"
  have R: "?fp = (if folder c = [] then fileName c @ ''.md'' else folder c @ ''/'' @ fileName c @ ''.md'')"
    by (simp add: resolve_filePath_def slash_def)
  show ?thesis
  proof (cases "vault w ?fp = None")
    case False
    then have "?new = [FileLookup ?fp, OpenLink ?fp]"
      by (simp add: openOrCreateNote_existing new_events_def)
    with False R show ?thesis by simp
  next
    case True
    let ?d = "substring ?fp 0 (lastIndexOf ?fp slash)"
    let ?cs = "creation_calls ?fp ?d
            (fileName c) (fst (getTemplaterPlugin a w)) (fst (getTemplateFile (templatePath c) w))"
    obtain fs where
      ne: "?new = [FileLookup ?fp, PluginLookup ''templater-obsidian'']
        @ template_lookup (templatePath c) @ fs @ ?cs"
      using missing_decomp [OF True, of a] by blast
    have hd: "?new \<noteq> [] \<and> hd ?new = FileLookup ?fp"
      unfolding ne by simp
    have "filter creates_note ?new = [FileCreate ?fp []] \<and> last ?new = OpenLink ?fp"
      if nt: "\<not> list_ex is_template_create ?new"
    proof -
      have "\<not> list_ex is_template_create ?cs"
        using nt unfolding ne by simp
      then have cs: "?cs = [FileCreate ?fp [], Delay 300, OpenLink ?fp]"
        using creation_calls_cases [of ?fp ?d "fileName c" "fst (getTemplaterPlugin a w)"
            "fst (getTemplateFile (templatePath c) w)"]
        by (auto simp: is_template_create_def)
      have "last ?new = OpenLink ?fp"
        unfolding ne cs by simp
      moreover have "filter creates_note ?new = [FileCreate ?fp []]"
        unfolding missing_creates [OF True] cs by (simp add: creates_note_def)
      ultimately show ?thesis by simp
    qed
    with True R hd show ?thesis by simp
  qed
qed

theorem filePath_resolution_witness:
  "resolve_filePath cfg_daily = ''Daily/2024-01-01.md''
   \<and> resolve_filePath \<lparr>fileName = ''2024-01'', folder = [], templatePath = []\<rparr> = ''2024-01.md''
   \<and> vault w_note (resolve_filePath cfg_daily) \<noteq> None
   \<and> last (new_events w_note (openOrCreateNote app_plain cfg_daily w_note)) = OpenLink ''Daily/2024-01-01.md''
   \<and> hd (new_events w_empty (openOrCreateNote app_plain cfg_daily w_empty)) = FileLookup ''Daily/2024-01-01.md''"
proof -
  have h1: "vault w_note (resolve_filePath cfg_daily) \<noteq> None"
    by (simp add: example_filePath w_note_def)
  show ?thesis
    using h1 filePath_resolution [of cfg_daily w_note app_plain]
      filePath_resolution [of cfg_daily w_empty app_plain]
      filePath_resolution [of "\<lparr>fileName = ''2024-01'', folder = [], templatePath = []\<rparr>" w_empty app_plain]
    by (auto simp: example_filePath)
qed

section \<open>Creating the folders of a path\<close>

lemma dir_prefixes_iff:
  "p \<in> set (dir_prefixes d) \<longleftrightarrow> (\<exists>s. d = p @ s \<and> (s = [] \<or> hd s = slash))"
proof (induction d arbitrary: p)
  case Nil
  show ?case by auto
next
  case (Cons x xs)
  show ?case
  proof (cases p)
    case Nil
    then show ?thesis by auto
  next
    case (Cons y ys)
    then show ?thesis using Cons.IH [of ys] by auto
  qed
qed

lemma dir_prefixes_sorted: "sorted_wrt (\<lambda>p q. length p < length q) (dir_prefixes d)"
  by (induction d) (auto simp: sorted_wrt_append sorted_wrt_map)

lemma dir_prefixes_distinct: "distinct (dir_prefixes d)"
  by (induction d) (auto simp: distinct_map)

lemma split_on_nonempty: "split_on c s \<noteq> []"
  by (induction s) (auto split: list.splits)

lemma currentPaths_split:
  "acc \<noteq> [] \<Longrightarrow> split_on slash r = p # ps \<Longrightarrow>
   (acc @ p) # currentPaths ps (acc @ p) = map ((@) acc) (dir_prefixes r)"
proof (induction r arbitrary: acc p ps)
  case Nil
  then show ?case by simp
next
  case (Cons x xs)
  obtain q qs where q: "split_on slash xs = q # qs"
    using split_on_nonempty [of slash xs] by (cases "split_on slash xs") auto
  show ?case
  proof (cases "x = slash")
    case True
    with Cons.prems q have p: "p = []" "ps = q # qs" by auto
    have "(acc @ [slash] @ q) # currentPaths qs (acc @ [slash] @ q)
            = map ((@) (acc @ [slash])) (dir_prefixes xs)"
      using Cons.IH [of "acc @ [slash]" q qs] q by simp
    then show ?thesis using True p Cons.prems(1) by (simp add: Let_def)
  next
    case False
    with Cons.prems q have p: "p = x # q" "ps = qs" by auto
    have "(acc @ [x] @ q) # currentPaths qs (acc @ [x] @ q)
            = map ((@) (acc @ [x])) (dir_prefixes xs)"
      using Cons.IH [of "acc @ [x]" q qs] q by simp
    then show ?thesis using False p by (simp add: comp_def)
  qed
qed

lemma currentPaths_dir_prefixes:
  assumes "d \<noteq> []" "hd d \<noteq> slash"
  shows "currentPaths (split_on slash d) [] = dir_prefixes d"
proof -
  from assms obtain x xs where d: "d = x # xs" "x \<noteq> slash" by (cases d) auto
  obtain q qs where q: "split_on slash xs = q # qs"
    using split_on_nonempty [of slash xs] by (cases "split_on slash xs") auto
  have "([x] @ q) # currentPaths qs ([x] @ q) = map ((@) [x]) (dir_prefixes xs)"
    using currentPaths_split [of "[x]" xs q qs] q by simp
  then show ?thesis using d q by (simp add: Let_def)
qed

lemma ensureFolders_loop_distinct:
  "distinct (currentPaths ps cur) \<Longrightarrow>
   trace (ensureFolders_loop ps cur w) = trace w @ concat (map (folder_calls (vault w)) (currentPaths ps cur))
   \<and> vault (ensureFolders_loop ps cur w) =
       (\<lambda>p. if p \<in> set (currentPaths ps cur) \<and> vault w p = None then Some TFolder else vault w p)"
proof (induction ps arbitrary: cur w)
  case Nil
  show ?case by simp
next
  case (Cons p ps)
  define c where "c = (if cur \<noteq> [] then cur @ [slash] @ p else p)"
  define w2 where "w2 = (if vault w c = None then createFolder c (log_event (FileLookup c) w) else log_event (FileLookup c) w)"
  have step: "ensureFolders_loop (p # ps) cur w = ensureFolders_loop ps c w2"
    by (simp add: c_def w2_def getAbstractFileByPath_def Let_def)
  have cp: "currentPaths (p # ps) cur = c # currentPaths ps c"
    by (simp add: c_def Let_def)
  with Cons.prems have dist: "c \<notin> set (currentPaths ps c)" "distinct (currentPaths ps c)" by auto
  have t2: "trace w2 = trace w @ folder_calls (vault w) c"
    by (simp add: w2_def createFolder_def log_event_def folder_calls_def)
  have v2: "vault w2 = (if vault w c = None then (vault w)(c \<mapsto> TFolder) else vault w)"
    by (simp add: w2_def createFolder_def log_event_def)
  have same: "\<And>q. q \<in> set (currentPaths ps c) \<Longrightarrow> vault w2 q = vault w q"
    using dist(1) v2 by auto
  then have fc: "map (folder_calls (vault w2)) (currentPaths ps c) = map (folder_calls (vault w)) (currentPaths ps c)"
    by (simp add: folder_calls_def)
  from Cons.IH [OF dist(2), of w2] have
    ih1: "trace (ensureFolders_loop ps c w2) = trace w2 @ concat (map (folder_calls (vault w2)) (currentPaths ps c))"
    and ih2: "vault (ensureFolders_loop ps c w2) =
       (\<lambda>p. if p \<in> set (currentPaths ps c) \<and> vault w2 p = None then Some TFolder else vault w2 p)"
    by blast+
  have A: "trace (ensureFolders_loop (p # ps) cur w) =
        trace w @ concat (map (folder_calls (vault w)) (currentPaths (p # ps) cur))"
    using step ih1 t2 fc cp by simp
  have B: "vault (ensureFolders_loop (p # ps) cur w) =
       (\<lambda>q. if q \<in> set (currentPaths (p # ps) cur) \<and> vault w q = None then Some TFolder else vault w q)"
    unfolding step ih2 cp using v2 same by (auto simp: fun_eq_iff)
  from A B show ?case by blast
qed

text \<open>
  \<^bold>\<open>C9, for paths that do not begin with a slash.\<close> \<^verbatim>\<open>ensureFoldersExist\<close> does
  nothing on the empty path. On a non-empty path that does not begin with a slash it goes
  through the slash-separated prefixes of the path from the shortest to the longest,
  checks each, calls \<^verbatim>\<open>createFolder\<close> for exactly those that the vault does not hold,
  so that afterwards every prefix exists; no other path of the vault changes.
\<close>

theorem ensureFoldersExist_prefixes:
  "ensureFoldersExist [] w = w
   \<and> (d \<noteq> [] \<and> hd d \<noteq> slash \<longrightarrow>
        new_events w (ensureFoldersExist d w) = concat (map (folder_calls (vault w)) (dir_prefixes d))
        \<and> sorted_wrt (\<lambda>p q. length p < length q) (dir_prefixes d)
        \<and> (\<forall>p \<in> set (dir_prefixes d). vault (ensureFoldersExist d w) p \<noteq> None)
        \<and> (\<forall>p. p \<notin> set (dir_prefixes d) \<longrightarrow> vault (ensureFoldersExist d w) p = vault w p))"
proof -
  have E: "ensureFoldersExist [] w = w" by (simp add: ensureFoldersExist_def)
  have M: "new_events w (ensureFoldersExist d w) = concat (map (folder_calls (vault w)) (dir_prefixes d))
        \<and> (\<forall>p \<in> set (dir_prefixes d). vault (ensureFoldersExist d w) p \<noteq> None)
        \<and> (\<forall>p. p \<notin> set (dir_prefixes d) \<longrightarrow> vault (ensureFoldersExist d w) p = vault w p)"
    if d: "d \<noteq> []" "hd d \<noteq> slash"
  proof -
    have cp: "currentPaths (split_on slash d) [] = dir_prefixes d"
      by (rule currentPaths_dir_prefixes [OF d])
    have run: "ensureFoldersExist d w = ensureFolders_loop (split_on slash d) [] w"
      using d by (simp add: ensureFoldersExist_def)
    have "distinct (currentPaths (split_on slash d) [])"
      unfolding cp by (rule dir_prefixes_distinct)
    from ensureFolders_loop_distinct [OF this, of w] have
      t: "trace (ensureFoldersExist d w) = trace w @ concat (map (folder_calls (vault w)) (dir_prefixes d))"
      and v: "vault (ensureFoldersExist d w) =
       (\<lambda>p. if p \<in> set (dir_prefixes d) \<and> vault w p = None then Some TFolder else vault w p)"
      unfolding run cp by blast+
    from new_events_append [OF t] v show ?thesis by auto
  qed
  from E M dir_prefixes_sorted [of d] show ?thesis by blast
qed

text \<open>
  \<^bold>\<open>C9, as stated for every path, fails on a leading slash.\<close> On \<^verbatim>\<open>/a\<close> the first
  part is empty, so the loop visits the empty path and then \<^verbatim>\<open>a\<close>, which is not a
  prefix of \<^verbatim>\<open>/a\<close>; afterwards the prefix \<^verbatim>\<open>/a\<close> does not exist.
\<close>

theorem leading_slash_counterexample:
  "dir_prefixes ''/a'' = [[], ''/a'']
   \<and> new_events w_empty (ensureFoldersExist ''/a'' w_empty) =
       [FileLookup [], FolderCreate [], FileLookup ''a'', FolderCreate ''a'']
   \<and> vault (ensureFoldersExist ''/a'' w_empty) ''/a'' = None"
  by code_simp

lemma example_dir_prefixes:
  "dir_prefixes ''Daily/2024/01'' = [''Daily'', ''Daily/2024'', ''Daily/2024/01'']"
  by code_simp

lemma example_folder_calls:
  "concat (map (folder_calls (vault w_daily_folder)) [''Daily'', ''Daily/2024'', ''Daily/2024/01'']) =
       [FileLookup ''Daily'', FileLookup ''Daily/2024'', FolderCreate ''Daily/2024'',
        FileLookup ''Daily/2024/01'', FolderCreate ''Daily/2024/01'']"
  by code_simp

theorem ensureFoldersExist_prefixes_witness:
  "''Daily/2024/01'' \<noteq> [] \<and> hd ''Daily/2024/01'' \<noteq> slash
   \<and> new_events w_daily_folder (ensureFoldersExist ''Daily/2024/01'' w_daily_folder) =
       [FileLookup ''Daily'', FileLookup ''Daily/2024'', FolderCreate ''Daily/2024'',
        FileLookup ''Daily/2024/01'', FolderCreate ''Daily/2024/01'']
   \<and> vault (ensureFoldersExist ''Daily/2024/01'' w_daily_folder) ''Daily/2024'' \<noteq> None
   \<and> vault (ensureFoldersExist ''Daily/2024/01'' w_daily_folder) ''Notes'' = None"
proof -
  have h: "''Daily/2024/01'' \<noteq> [] \<and> hd ''Daily/2024/01'' \<noteq> slash"
    by (simp add: slash_def)
  have v: "vault w_daily_folder ''Notes'' = None"
    by (simp add: w_daily_folder_def)
  have m: "''Daily/2024'' \<in> set (dir_prefixes ''Daily/2024/01'')"
    "''Notes'' \<notin> set (dir_prefixes ''Daily/2024/01'')"
    unfolding example_dir_prefixes by simp_all
  from ensureFoldersExist_prefixes [of w_daily_folder "''Daily/2024/01''"] h
  have "new_events w_daily_folder (ensureFoldersExist ''Daily/2024/01'' w_daily_folder) =
          concat (map (folder_calls (vault w_daily_folder)) (dir_prefixes ''Daily/2024/01''))"
    and "\<forall>p \<in> set (dir_prefixes ''Daily/2024/01'').
          vault (ensureFoldersExist ''Daily/2024/01'' w_daily_folder) p \<noteq> None"
    and "\<forall>p. p \<notin> set (dir_prefixes ''Daily/2024/01'') \<longrightarrow>
          vault (ensureFoldersExist ''Daily/2024/01'' w_daily_folder) p = vault w_daily_folder p"
    by blast+
  with h v m show ?thesis
    unfolding example_dir_prefixes example_folder_calls by metis
qed

section \<open>The handlers\<close>

lemma quarter_of_eq: "quarter_of m = m div 3 + 1"
proof -
  have "quarter_of m = \<lceil>(of_int (m + 1) :: real) / of_int 3\<rceil>"
    by (simp add: quarter_of_def)
  also have "\<dots> = - (- (m + 1) div 3)"
    by (rule ceiling_divide_eq_div)
  also have "\<dots> = m div 3 + 1" by presburger
  finally show ?thesis .
qed

lemma quarterStartMonth_eq: "quarterStartMonth m = 3 * (m div 3)"
  by (simp add: quarterStartMonth_def quarter_of_eq)

lemma quarterStartMonth_range:
  "0 \<le> m \<Longrightarrow> m \<le> 11 \<Longrightarrow> quarterStartMonth m \<in> {0, 3, 6, 9}"
  unfolding quarterStartMonth_eq by (simp; presburger)

lemma quarter_date:
  assumes "0 \<le> month d" "month d \<le> 11"
  shows "startOf_month (set_month d (quarterStartMonth (month d))) =
           \<lparr>year = year d, month = 3 * (month d div 3), day = 1\<rparr>"
proof -
  have "0 \<le> 3 * (month d div 3) \<and> 3 * (month d div 3) < 12"
    using assms by presburger
  then show ?thesis
    by (simp add: quarterStartMonth_eq set_month_def startOf_month_def Let_def)
qed

text \<open>
  \<^bold>\<open>C10.\<close> For a parsed month with zero-based index \<open>m\<close> in \<open>0 .. 11\<close>,
  \<^verbatim>\<open>handleQuarterClick\<close> computes the quarter's first month as \<open>3 * (m div 3)\<close>, one of
  0, 3, 6, 9, and the date it formats for the quarterly note is the first day of that
  month (January, April, July or October) of the same year.
\<close>

theorem handleQuarterClick_quarter_start:
  assumes "labelText \<noteq> []"
    and "parseDate lib labelText [''MMM YYYY'', ''MMMM YYYY''] = Some d"
    and "0 \<le> month d" and "month d \<le> 11"
  shows "quarterStartMonth (month d) = 3 * (month d div 3)
       \<and> quarterStartMonth (month d) \<in> {0, 3, 6, 9}
       \<and> handleQuarterClick lib st a (Some labelText) w =
           openOrCreateNote a
             \<lparr>fileName = dj_format lib \<lparr>year = year d, month = 3 * (month d div 3), day = 1\<rparr>
                           (quarterlyNoteFormat st),
              folder = quarterlyNoteFolder st,
              templatePath = quarterlyNoteTemplate st\<rparr> w"
  using assms quarter_date [of d] quarterStartMonth_range [of "month d"]
  by (simp add: handleQuarterClick_def quarterStartMonth_eq Let_def)

lemma example_parse_aug:
  "parseDate lib_example ''Aug 2024'' [''MMM YYYY'', ''MMMM YYYY''] = Some \<lparr>year = 2024, month = 7, day = 1\<rparr>"
  by (simp add: lib_example_def)

theorem handleQuarterClick_quarter_start_witness:
  "''Aug 2024'' \<noteq> []
   \<and> parseDate lib_example ''Aug 2024'' [''MMM YYYY'', ''MMMM YYYY'']
       = Some \<lparr>year = 2024, month = 7, day = 1\<rparr>
   \<and> quarterStartMonth 7 = 6
   \<and> handleQuarterClick lib_example settings_example app_plain (Some ''Aug 2024'') w_empty =
       openOrCreateNote app_plain
         \<lparr>fileName = ''Jul Q'', folder = ''Quarterly'', templatePath = []\<rparr> w_empty"
proof -
  have h1: "''Aug 2024'' \<noteq> []" by simp
  have h3: "0 \<le> month \<lparr>year = 2024, month = 7, day = 1\<rparr>" by simp
  have h4: "month \<lparr>year = 2024, month = 7, day = 1\<rparr> \<le> 11" by simp
  have f: "dj_format lib_example \<lparr>year = 2024, month = 6, day = 1\<rparr> ''Q'' = ''Jul Q''"
    by (simp add: lib_example_def month_abbr_def)
  have "quarterStartMonth 7 = 6
     \<and> handleQuarterClick lib_example settings_example app_plain (Some ''Aug 2024'') w_empty =
       openOrCreateNote app_plain
         \<lparr>fileName = ''Jul Q'', folder = ''Quarterly'', templatePath = []\<rparr> w_empty"
    using handleQuarterClick_quarter_start [OF h1 example_parse_aug h3 h4,
        of settings_example app_plain w_empty] f
    by (simp add: settings_example_def)
  with h1 example_parse_aug show ?thesis by blast
qed

lemma parseDate_None_iff:
  "parseDate lib s formats = None \<longleftrightarrow> (\<forall>f \<in> set formats. dj_parse lib s f = None)"
  by (induction formats) (auto split: option.splits)

lemma handleWeekNumberClick_returns:
  assumes "weekIndex_from (weekNumberTiles cal) target 0 (- 1) = i"
    and "i = - 1 \<or> i * 7 < 0 \<or> int (length (dayTiles cal)) \<le> i * 7
         \<or> dayTiles cal ! nat (i * 7) = None
         \<or> (\<exists>label. dayTiles cal ! nat (i * 7) = Some label
               \<and> dj_parse lib label ''MMMM D, YYYY'' = None)"
  shows "handleWeekNumberClick lib st a cal target w = w"
  using assms by (auto simp: handleWeekNumberClick_def Let_def split: option.splits)

lemma handleMonthLabelClick_returns:
  assumes "textContent = None \<or> textContent = Some []
         \<or> (\<exists>t. textContent = Some t
              \<and> parseDate lib t [''D MMM YYYY'', ''DD MMM YYYY'', ''MMM YYYY''] = None)"
  shows "handleMonthLabelClick lib st a textContent w =
           log_event PreventDefault (log_event StopPropagation w)"
  using assms by (auto simp: handleMonthLabelClick_def Let_def split: option.splits)

lemma handleMonthClick_returns:
  assumes "monthYearText = None \<or> monthYearText = Some []
         \<or> (\<exists>t. monthYearText = Some t \<and> parseDate lib t [''MMM YYYY'', ''MMMM YYYY''] = None)"
  shows "handleMonthClick lib st a monthYearText w = w"
  using assms by (auto simp: handleMonthClick_def split: option.splits)

lemma handleQuarterClick_returns:
  assumes "monthYearText = None \<or> monthYearText = Some []
         \<or> (\<exists>t. monthYearText = Some t \<and> parseDate lib t [''MMM YYYY'', ''MMMM YYYY''] = None)"
  shows "handleQuarterClick lib st a monthYearText w = w"
  using assms by (auto simp: handleQuarterClick_def split: option.splits)

lemma handleMonthNavLabelClickCapture_returns:
  assumes "labelButton target = Some monthYearText"
    and "monthYearText = None \<or> monthYearText = Some []
         \<or> (\<exists>t. monthYearText = Some t \<and> parseDate lib t [''MMM YYYY'', ''MMMM YYYY''] = None)"
  shows "handleMonthNavLabelClickCapture lib st a target w = stop_and_prevent w"
  using assms handleMonthClick_returns [OF assms(2)] handleQuarterClick_returns [OF assms(2)]
  by (simp add: handleMonthNavLabelClickCapture_def)

lemma handleMonthDayContextMenu_returns:
  "delegateTarget = None \<or> delegateTarget = Some [] \<Longrightarrow>
   handleMonthDayContextMenu lib a delegateTarget w = (None, w)"
  by (auto simp: handleMonthDayContextMenu_def)

lemma date_text_unusable_iff:
  "date_text_unusable lib formats t \<longleftrightarrow>
     t = None \<or> t = Some [] \<or> (\<exists>s. t = Some s \<and> parseDate lib s formats = None)"
  by (auto simp: date_text_unusable_def split: option.splits)

lemma handleMonthDayContextMenu_no_note:
  "vault (snd (handleMonthDayContextMenu lib a tile w)) = vault w
   \<and> list_all (\<lambda>e. e = PluginLookup ''templater-obsidian'' \<or> e = MenuShow)
        (new_events w (snd (handleMonthDayContextMenu lib a tile w)))"
  by (simp add: handleMonthDayContextMenu_def getTemplaterPlugin_def log_event_def new_events_def
      Let_def split: option.splits)

text \<open>
  The handlers that call \<^verbatim>\<open>openOrCreateNote\<close> themselves return without calling it
  when the date text they recover from the markup is absent, empty or fails to parse under
  the formats they try: the world is left as it was, but for the calls on the event that
  precede the check. The week-number handler has no test for an empty label of its own:
  the label goes to dayjs like any other, and the handler returns when dayjs rejects it.
  The context-menu handler returns before building a menu when the label is absent or
  empty.
\<close>

lemma validating_handlers_return_on_unusable_date:
  "(date_text_unusable lib [''D MMM YYYY'', ''DD MMM YYYY'', ''MMM YYYY''] textContent \<longrightarrow>
      handleMonthLabelClick lib st a textContent w = stop_and_prevent w)
   \<and> (date_text_unusable lib [''MMM YYYY'', ''MMMM YYYY''] monthYearText \<longrightarrow>
      handleMonthClick lib st a monthYearText w = w
      \<and> handleQuarterClick lib st a monthYearText w = w
      \<and> (labelButton target = Some monthYearText \<longrightarrow>
           handleMonthNavLabelClickCapture lib st a target w = stop_and_prevent w))
   \<and> (weekIndex_from (weekNumberTiles cal) tgt 0 (- 1) = i \<and> 0 \<le> i
        \<and> i * 7 < int (length (dayTiles cal)) \<and> dayTiles cal ! nat (i * 7) = tile
        \<and> (tile = None \<or> (\<exists>s. tile = Some s \<and> dj_parse lib s ''MMMM D, YYYY'' = None)) \<longrightarrow>
      handleWeekNumberClick lib st a cal tgt w = w)
   \<and> (tile = None \<or> tile = Some [] \<longrightarrow> handleMonthDayContextMenu lib a tile w = (None, w))"
proof -
  have A: "handleMonthLabelClick lib st a textContent w = stop_and_prevent w"
    if "date_text_unusable lib [''D MMM YYYY'', ''DD MMM YYYY'', ''MMM YYYY''] textContent"
    using that handleMonthLabelClick_returns [of textContent lib st a w]
    unfolding date_text_unusable_iff stop_and_prevent_def by blast
  have B: "handleMonthClick lib st a monthYearText w = w
      \<and> handleQuarterClick lib st a monthYearText w = w
      \<and> (labelButton target = Some monthYearText \<longrightarrow>
           handleMonthNavLabelClickCapture lib st a target w = stop_and_prevent w)"
    if "date_text_unusable lib [''MMM YYYY'', ''MMMM YYYY''] monthYearText"
    using that handleMonthClick_returns [of monthYearText lib st a w]
      handleQuarterClick_returns [of monthYearText lib st a w]
      handleMonthNavLabelClickCapture_returns [of target monthYearText lib st a w]
    unfolding date_text_unusable_iff by blast
  have C: "handleWeekNumberClick lib st a cal tgt w = w"
    if "weekIndex_from (weekNumberTiles cal) tgt 0 (- 1) = i \<and> 0 \<le> i
        \<and> i * 7 < int (length (dayTiles cal)) \<and> dayTiles cal ! nat (i * 7) = tile
        \<and> (tile = None \<or> (\<exists>s. tile = Some s \<and> dj_parse lib s ''MMMM D, YYYY'' = None))"
    using that handleWeekNumberClick_returns [of cal tgt i lib st a w] by blast
  have D: "handleMonthDayContextMenu lib a tile w = (None, w)" if "tile = None \<or> tile = Some []"
    using that by (rule handleMonthDayContextMenu_returns)
  from A B C D show ?thesis by blast
qed

lemma example_weekIndex: "weekIndex_from (weekNumberTiles cal_example) 11 0 (- 1) = 1"
  by (simp add: cal_example_def)

lemma example_tile: "dayTiles cal_example ! nat (1 * 7) = Some ''not a date''"
  by code_simp

lemma validating_handlers_example:
  "date_text_unusable lib_example [''D MMM YYYY'', ''DD MMM YYYY'', ''MMM YYYY''] (Some ''Augustus'')
   \<and> handleMonthLabelClick lib_example settings_example app_plain (Some ''Augustus'') w_empty
        = stop_and_prevent w_empty
   \<and> date_text_unusable lib_example [''MMM YYYY'', ''MMMM YYYY''] (Some [])
   \<and> handleQuarterClick lib_example settings_example app_plain (Some []) w_empty = w_empty
   \<and> dj_parse lib_example ''not a date'' ''MMMM D, YYYY'' = None
   \<and> handleWeekNumberClick lib_example settings_example app_plain cal_example 11 w_empty = w_empty
   \<and> handleMonthDayContextMenu lib_example app_plain None w_empty = (None, w_empty)"
proof -
  have h1: "date_text_unusable lib_example [''D MMM YYYY'', ''DD MMM YYYY'', ''MMM YYYY''] (Some ''Augustus'')"
    by (simp add: date_text_unusable_def lib_example_def)
  have h2: "date_text_unusable lib_example [''MMM YYYY'', ''MMMM YYYY''] (Some [])"
    by (simp add: date_text_unusable_def)
  have h3: "dj_parse lib_example ''not a date'' ''MMMM D, YYYY'' = None"
    by (simp add: lib_example_def)
  have h4: "(1::int) * 7 < int (length (dayTiles cal_example))"
    by (simp add: cal_example_def)
  have w: "handleWeekNumberClick lib_example settings_example app_plain cal_example 11 w_empty = w_empty"
    using validating_handlers_return_on_unusable_date [of lib_example None settings_example app_plain w_empty
        None "\<lparr>labelButton = None, in_quarter = False, in_month_year = False\<rparr>"
        cal_example 11 1 "Some ''not a date''"]
      example_weekIndex example_tile h3 h4
    by simp
  have r: "handleMonthLabelClick lib_example settings_example app_plain (Some ''Augustus'') w_empty
        = stop_and_prevent w_empty
     \<and> handleQuarterClick lib_example settings_example app_plain (Some []) w_empty = w_empty
     \<and> handleMonthDayContextMenu lib_example app_plain None w_empty = (None, w_empty)"
    using validating_handlers_return_on_unusable_date [of lib_example "Some ''Augustus''" settings_example
        app_plain w_empty "Some []" "\<lparr>labelButton = None, in_quarter = False, in_month_year = False\<rparr>"
        cal_example 11 1 None] h1 h2
    by blast
  from h1 h2 h3 w r show ?thesis by blast
qed

text \<open>
  The context-menu handler parses the label as the week-number handler does, with the same
  format, but has no \<^verbatim>\<open>isValid()\<close> test: on a label that is not empty it always builds
  and shows the menu, and when the Daily Notes plugin is enabled with its options and
  Templater is installed, the second item of the menu calls \<^verbatim>\<open>openOrCreateNote\<close> with the
  label's date formatted, which is \<^verbatim>\<open>Invalid Date\<close> for a label that failed to parse.
\<close>

lemma handleMonthDayContextMenu_no_early_return:
  "s \<noteq> [] \<Longrightarrow> fst (handleMonthDayContextMenu lib a (Some s) w) \<noteq> None"
  by (simp add: handleMonthDayContextMenu_def Let_def split_beta)

lemma context_menu_daily_note_action:
  assumes "s \<noteq> []"
    and "get_daily_notes a = Some dn" and "enabled dn"
    and "has_templater (fst (getTemplaterPlugin a w)) \<noteq> None"
    and "instance_options dn = Some opts"
  shows "click_item (fst (handleMonthDayContextMenu lib a (Some s) w)) 1 w' =
           openOrCreateNote a
             \<lparr>fileName = format_dayjs lib (dj_parse lib s ''MMMM D, YYYY'')
                           (or_default (opt_format opts) ''YYYY-MM-DD''),
              folder = or_default (opt_folder opts) [],
              templatePath = or_default (opt_template opts) []\<rparr> w'"
  using assms
  by (simp add: handleMonthDayContextMenu_def click_item_def create_daily_note_def
      Let_def split_beta)

lemma context_menu_unparsed_label_file_name:
  "dj_parse lib s ''MMMM D, YYYY'' = None \<Longrightarrow>
   format_dayjs lib (dj_parse lib s ''MMMM D, YYYY'') f = ''Invalid Date''"
  by (simp add: format_dayjs_def)

text \<open>
  \<^bold>\<open>C7 fails at the day context menu.\<close> The claim is that every handler returns without
  calling \<^verbatim>\<open>openOrCreateNote\<close>, so that no note is opened or created, when the date text
  fails to parse. With the label \<^verbatim>\<open>not a date\<close>, which dayjs rejects,
  \<^verbatim>\<open>handleMonthDayContextMenu\<close> does not return early: it shows a menu of two items, and
  a click on \<^verbatim>\<open>Create daily note for this date\<close> creates and opens the note
  \<^verbatim>\<open>Daily/Invalid Date.md\<close>. On the same label \<^verbatim>\<open>handleWeekNumberClick\<close>, which tests
  \<^verbatim>\<open>isValid()\<close>, calls nothing.
\<close>

theorem context_menu_invalid_date:
  "dj_parse lib_example ''not a date'' ''MMMM D, YYYY'' = None
   \<and> map title (case fst (handleMonthDayContextMenu lib_example app_templater
                            (Some ''not a date'') w_empty) of None \<Rightarrow> [] | Some items \<Rightarrow> items)
       = [''Create a note for this date'', ''Create daily note for this date'']
   \<and> new_events w_empty
        (click_item (fst (handleMonthDayContextMenu lib_example app_templater
                            (Some ''not a date'') w_empty)) 1 w_empty)
       = [FileLookup ''Daily/Invalid Date.md'', PluginLookup ''templater-obsidian'',
          FileLookup ''Templates/daily.md'', FileLookup ''Daily'', FolderCreate ''Daily'',
          FileCreate ''Daily/Invalid Date.md'' [], Delay 300, OpenLink ''Daily/Invalid Date.md'']
   \<and> vault (click_item (fst (handleMonthDayContextMenu lib_example app_templater
                            (Some ''not a date'') w_empty)) 1 w_empty) ''Daily/Invalid Date.md''
       = Some TFile
   \<and> new_events w_empty
        (handleWeekNumberClick lib_example settings_example app_templater cal_example 11 w_empty)
       = []"
  by code_simp

end
